theory Spec2Isabelle
  imports Complex_Main "HOL-Library.Sublist"
begin

section \<open>Exceptions and Python values\<close>

text \<open>
  The exception classes that \<^verbatim>\<open>bot.py\<close> raises, catches or lets through.
  \<^verbatim>\<open>json.JSONDecodeError\<close> is a subclass of \<^verbatim>\<open>ValueError\<close>;
  \<^verbatim>\<open>httpx.HTTPStatusError\<close> (raised by \<^verbatim>\<open>raise_for_status\<close>) and
  \<^verbatim>\<open>httpx.RequestError\<close> are sibling subclasses of \<^verbatim>\<open>httpx.HTTPError\<close>.
\<close>

datatype exn =
    JSONDecodeError
  | KeyError
  | ValueError
  | TypeError
  | AttributeError
  | IndexError
  | RecursionError
  | RequestError
  | HTTPStatusError
  | RuntimeError
  | KeyboardInterrupt
  | CancelledError

text \<open>The values \<^verbatim>\<open>json.loads\<close> can return.\<close>

datatype pyval =
    PNone
  | PBool bool
  | PInt int
  | PFloat real
  | PStr string
  | PList "pyval list"
  | PDict "(string \<times> pyval) list"

text \<open>Python truthiness (\<^verbatim>\<open>not v\<close> is its negation).\<close>

fun truthy :: "pyval \<Rightarrow> bool" where
  "truthy PNone = False"
| "truthy (PBool b) = b"
| "truthy (PInt i) = (i \<noteq> 0)"
| "truthy (PFloat r) = (r \<noteq> 0)"
| "truthy (PStr s) = (s \<noteq> [])"
| "truthy (PList xs) = (xs \<noteq> [])"
| "truthy (PDict kvs) = (kvs \<noteq> [])"

section \<open>The jitter generator\<close>

text \<open>
  \<^verbatim>\<open>humaniser()\<close> draws \<^verbatim>\<open>x = random.uniform(0, 113)\<close> and returns
  \<^verbatim>\<open>1.2 * (2.9**x + 1) / (math.exp(x) * 1.5)\<close>. The draw is the argument of
  \<open>humaniser\<close>; floats are read as reals.
\<close>

definition humaniser :: "real \<Rightarrow> real" where
  "humaniser x = 1.2 * (2.9 powr x + 1) / (exp x * 1.5)"

section \<open>Observable effects\<close>

text \<open>
  Everything the program does to the outside world is recorded as an event, in order:
  the lines it prints (one constructor per \<^verbatim>\<open>print\<close> statement of \<^verbatim>\<open>bot.py\<close>, with
  the values it interpolates), the HTTP requests it issues, the suspension in
  \<^verbatim>\<open>asyncio.sleep\<close>, and the release of the transport in \<^verbatim>\<open>__aexit__\<close>.
\<close>

datatype message =
    ErrorParsingCounterEvents exn
  | LoginFailed exn
  | ClickActionFailed exn
  | FailedToFetchGameState exn
  | LoggingIn
  | FailedToLoginAborting
  | LoginSuccessful string
  | GameStateRetrieved
  | NextClickAvailableIn real
  | StartingInterval real
  | StartingDynamic
  | ReachedMaxClicks int
  | ReachedDuration real
  | HumanizerDelay real
  | ServerCooldown real
  | Clicks int
  | ClickFailedRetrying
  | BotInterrupted
  | BotFinished int real

datatype event =
    Print message
  | HttpGet string
  | HttpPost string "(string \<times> string) list"
  | Sleep real
  | Aclose

section \<open>Scanning markup for an attribute value\<close>

text \<open>
  A Python \<^verbatim>\<open>str\<close> is modelled as a \<^typ>\<open>string\<close> whose characters are code points
  below 256. \<open>is_space\<close> is the class \<^verbatim>\<open>\s\<close> of \<^verbatim>\<open>re\<close> on such characters:
  9 to 13, 28 to 32, 133 and 160.
\<close>

definition is_space :: "char \<Rightarrow> bool" where
  "is_space c =
     (let n = (of_char c :: nat)
      in (9 \<le> n \<and> n \<le> 13) \<or> (28 \<le> n \<and> n \<le> 32) \<or> n = 133 \<or> n = 160)"

definition dquote :: char where
  "dquote = CHR 0x22"

definition newline :: char where
  "newline = CHR 0x0A"

fun strip_prefix :: "string \<Rightarrow> string \<Rightarrow> string option" where
  "strip_prefix [] s = Some s"
| "strip_prefix (p # ps) [] = None"
| "strip_prefix (p # ps) (c # cs) = (if p = c then strip_prefix ps cs else None)"

text \<open>
  Both regular expressions of \<^verbatim>\<open>bot.py\<close> have the shape
  \<^verbatim>\<open>LIT1\s+LIT2"(G)"\<close> where \<^verbatim>\<open>G\<close> matches any run of characters other than the
  double quote: \<^verbatim>\<open>[^"]*\<close> in \<^verbatim>\<open>login\<close>, and \<^verbatim>\<open>[^"]*(?:\n[^"]*)*\<close> in
  \<^verbatim>\<open>extract_next_click_time\<close> (where \<^verbatim>\<open>[^"]\<close> already matches a newline).
  \<open>match_attr\<close> is a match anchored at the head of the text. \<^verbatim>\<open>\s+\<close> is greedy and
  what follows it starts with a letter, so it takes the whole run of white space; the
  group takes every character up to the next double quote, which has to exist.
  \<open>lit2\<close> here ends just before the opening quote of the value.
\<close>

definition match_attr :: "string \<Rightarrow> string \<Rightarrow> string \<Rightarrow> string option" where
  "match_attr lit1 lit2 s =
     (case strip_prefix lit1 s of
        None \<Rightarrow> None
      | Some r1 \<Rightarrow>
          if takeWhile is_space r1 = [] then None
          else (case strip_prefix (lit2 @ [dquote]) (dropWhile is_space r1) of
                  None \<Rightarrow> None
                | Some r2 \<Rightarrow>
                    if dropWhile (\<lambda>c. c \<noteq> dquote) r2 = [] then None
                    else Some (takeWhile (\<lambda>c. c \<noteq> dquote) r2)))"

text \<open>\<^verbatim>\<open>re.search\<close>: the match at the leftmost position that has one.\<close>

fun re_search :: "string \<Rightarrow> string \<Rightarrow> string \<Rightarrow> string option" where
  "re_search lit1 lit2 [] = match_attr lit1 lit2 []"
| "re_search lit1 lit2 (c # cs) =
     (case match_attr lit1 lit2 (c # cs) of
        Some g \<Rightarrow> Some g
      | None \<Rightarrow> re_search lit1 lit2 cs)"

text \<open>
  \<^verbatim>\<open>str.replace(old, new)\<close> for a non-empty \<open>old\<close>: occurrences are replaced from the
  left and do not overlap. The counter is the number of characters of a replaced
  occurrence still to be skipped.
\<close>

fun replace_from :: "string \<Rightarrow> string \<Rightarrow> nat \<Rightarrow> string \<Rightarrow> string" where
  "replace_from old new k [] = []"
| "replace_from old new (Suc k) (c # cs) = replace_from old new k cs"
| "replace_from old new 0 (c # cs) =
     (if prefix old (c # cs) then new @ replace_from old new (length old - 1) cs
      else c # replace_from old new 0 cs)"

definition replace :: "string \<Rightarrow> string \<Rightarrow> string \<Rightarrow> string" where
  "replace old new s = replace_from old new 0 s"

section \<open>The cooldown extractor\<close>

text \<open>
  A \<^verbatim>\<open>datetime\<close> is naive or timezone-aware; the number is its time in microseconds
  (for an aware one, of the instant in UTC). A \<^verbatim>\<open>timedelta\<close> is a number of
  microseconds. Subtracting a naive and an aware \<^verbatim>\<open>datetime\<close> raises
  \<^verbatim>\<open>TypeError\<close>.
\<close>

datatype datetime = Naive int | Aware int

type_synonym timedelta = int

fun datetime_sub :: "datetime \<Rightarrow> datetime \<Rightarrow> exn + timedelta" where
  "datetime_sub (Naive a) (Naive b) = Inr (a - b)"
| "datetime_sub (Aware a) (Aware b) = Inr (a - b)"
| "datetime_sub (Naive a) (Aware b) = Inl TypeError"
| "datetime_sub (Aware a) (Naive b) = Inl TypeError"

definition total_seconds :: "timedelta \<Rightarrow> real" where
  "total_seconds d = real_of_int d / 1000000"

text \<open>
  \<^verbatim>\<open>json.loads\<close> and \<^verbatim>\<open>datetime.fromisoformat\<close> belong to the standard library, not
  to the repository: they are parameters of the model, each a function from the text to
  the value it returns or the exception it raises.
\<close>

record stdlib =
  json_loads :: "string \<Rightarrow> exn + pyval"
  fromisoformat :: "string \<Rightarrow> exn + datetime"

text \<open>\<^verbatim>\<open>len(v)\<close>, \<^verbatim>\<open>v[0]\<close>, \<^verbatim>\<open>v.get(key)\<close> and \<^verbatim>\<open>datetime.fromisoformat(v)\<close> on a parsed value.\<close>

fun py_len :: "pyval \<Rightarrow> exn + nat" where
  "py_len (PStr s) = Inr (length s)"
| "py_len (PList xs) = Inr (length xs)"
| "py_len (PDict kvs) = Inr (length kvs)"
| "py_len v = Inl TypeError"

fun py_item0 :: "pyval \<Rightarrow> exn + pyval" where
  "py_item0 (PList []) = Inl IndexError"
| "py_item0 (PList (x # xs)) = Inr x"
| "py_item0 (PStr []) = Inl IndexError"
| "py_item0 (PStr (c # cs)) = Inr (PStr [c])"
| "py_item0 (PDict kvs) = Inl KeyError"
| "py_item0 v = Inl TypeError"

fun py_get :: "pyval \<Rightarrow> string \<Rightarrow> exn + pyval" where
  "py_get (PDict kvs) k = Inr (case map_of kvs k of None \<Rightarrow> PNone | Some v \<Rightarrow> v)"
| "py_get v k = Inl AttributeError"

fun py_fromisoformat :: "stdlib \<Rightarrow> pyval \<Rightarrow> exn + datetime" where
  "py_fromisoformat lib (PStr s) = fromisoformat lib s"
| "py_fromisoformat lib v = Inl TypeError"

text \<open>Lines 63 to 83: from the first event to the duration.\<close>

definition event_timeout :: "stdlib \<Rightarrow> pyval \<Rightarrow> exn + timedelta" where
  "event_timeout lib ev =
     (case py_get ev ''start-date'' of
        Inl e \<Rightarrow> Inl e
      | Inr start_date_str \<Rightarrow>
     (case py_get ev ''end-date'' of
        Inl e \<Rightarrow> Inl e
      | Inr end_date_str \<Rightarrow>
          if \<not> truthy start_date_str \<or> \<not> truthy end_date_str then Inr 0
          else
     (case py_fromisoformat lib start_date_str of
        Inl e \<Rightarrow> Inl e
      | Inr start \<Rightarrow>
     (case py_fromisoformat lib end_date_str of
        Inl e \<Rightarrow> Inl e
      | Inr end' \<Rightarrow>
     (case datetime_sub end' start of
        Inl e \<Rightarrow> Inl e
      | Inr timeout_duration \<Rightarrow>
          if total_seconds timeout_duration \<le> 0 then Inr 0
          else Inr timeout_duration)))))"

text \<open>Lines 51 to 83: the body of the \<^verbatim>\<open>try\<close>, on the text the pattern captured.\<close>

definition parse_counter :: "stdlib \<Rightarrow> string \<Rightarrow> exn + timedelta" where
  "parse_counter lib g =
     (let json_str = replace ''&quot;'' [dquote] g;
          json_str = replace [newline] [] json_str
      in case json_loads lib json_str of
           Inl e \<Rightarrow> Inl e
         | Inr events \<Rightarrow>
             if \<not> truthy events then Inr 0
             else (case py_len events of
                     Inl e \<Rightarrow> Inl e
                   | Inr n \<Rightarrow>
                       if n = 0 then Inr 0
                       else (case py_item0 events of
                               Inl e \<Rightarrow> Inl e
                             | Inr ev \<Rightarrow> event_timeout lib ev)))"

definition counter_lit1 :: string where
  "counter_lit1 = ''data-controller='' @ [dquote] @ ''counter'' @ [dquote]"

definition counter_lit2 :: string where
  "counter_lit2 = ''data-counter-events-value=''"

text \<open>
  \<^verbatim>\<open>extract_next_click_time\<close>. The handler catches \<^verbatim>\<open>json.JSONDecodeError\<close>,
  \<^verbatim>\<open>KeyError\<close> and \<^verbatim>\<open>ValueError\<close>, prints and returns zero; any other exception
  leaves the function.
\<close>

definition caught_by_extract :: "exn \<Rightarrow> bool" where
  "caught_by_extract e = (e = JSONDecodeError \<or> e = KeyError \<or> e = ValueError)"

definition extract_next_click_time :: "stdlib \<Rightarrow> string \<Rightarrow> event list \<times> (exn + timedelta)" where
  "extract_next_click_time lib html =
     (case re_search counter_lit1 counter_lit2 html of
        None \<Rightarrow> ([], Inr 0)
      | Some g \<Rightarrow>
          (case parse_counter lib g of
             Inr d \<Rightarrow> ([], Inr d)
           | Inl e \<Rightarrow>
               if caught_by_extract e then ([Print (ErrorParsingCounterEvents e)], Inr 0)
               else ([], Inl e)))"

section \<open>The session\<close>

text \<open>
  What the transport (\<^verbatim>\<open>httpx.AsyncClient\<close>, following redirects) hands back for one
  request: the final response, or the exception raised while awaiting it.
  \<open>url_path\<close> is \<^verbatim>\<open>response.url.path\<close>, \<open>url\<close> is \<^verbatim>\<open>str(response.url)\<close>
  and \<open>text_str\<close> is \<^verbatim>\<open>response.text\<close>.
\<close>

record response =
  status_code :: int
  url :: string
  url_path :: string
  text_str :: string

type_synonym reply = "exn + response"

text \<open>
  \<^verbatim>\<open>httpx.Response.raise_for_status\<close> raises \<^verbatim>\<open>HTTPStatusError\<close> unless the
  status is a 2xx one.
\<close>

definition raise_for_status :: "response \<Rightarrow> exn + unit" where
  "raise_for_status r =
     (if 200 \<le> status_code r \<and> status_code r \<le> 299 then Inr () else Inl HTTPStatusError)"

text \<open>
  \<^verbatim>\<open>GameSession\<close>. \<open>client\<close> says whether the transport handle exists (it does
  between \<^verbatim>\<open>__aenter__\<close> and \<^verbatim>\<open>__aexit__\<close>). The field \<^verbatim>\<open>cookies\<close> is written
  by \<^verbatim>\<open>login\<close> and never read; the cookie jar itself lives inside the transport and is
  not modelled.
\<close>

record GameSession =
  email :: string
  password :: string
  base_url :: string
  client :: bool

definition aenter :: "string \<Rightarrow> string \<Rightarrow> string \<Rightarrow> GameSession" where
  "aenter em pw base = \<lparr>email = em, password = pw, base_url = base, client = True\<rparr>"

definition aexit :: "GameSession \<Rightarrow> event list" where
  "aexit s = (if client s then [Aclose] else [])"

text \<open>Each method's handler is \<^verbatim>\<open>except httpx.RequestError\<close>.\<close>

definition caught_by_session :: "exn \<Rightarrow> bool" where
  "caught_by_session e = (e = RequestError)"

definition csrf_lit1 :: string where
  "csrf_lit1 = ''name='' @ [dquote] @ ''_csrf_token'' @ [dquote]"

definition csrf_lit2 :: string where
  "csrf_lit2 = ''value=''"

definition login_data :: "GameSession \<Rightarrow> string \<Rightarrow> (string \<times> string) list" where
  "login_data s page =
     [(''_username'', email s), (''_password'', password s), (''_remember_me'', ''on'')]
     @ (case re_search csrf_lit1 csrf_lit2 page of
          None \<Rightarrow> []
        | Some csrf_token \<Rightarrow> if csrf_token \<noteq> [] then [(''_csrf_token'', csrf_token)] else [])"

text \<open>
  \<^verbatim>\<open>login\<close>, lines 111 to 160. \<open>page\<close> is the transport's answer to the GET of the
  login page and \<open>landing\<close> its answer to the POST of the form.
\<close>

definition login_try :: "GameSession \<Rightarrow> reply \<Rightarrow> reply \<Rightarrow> event list \<times> (exn + bool)" where
  "login_try s page landing =
     (let login_url = base_url s @ ''/security/login''
      in case page of
           Inl e \<Rightarrow> ([HttpGet login_url], Inl e)
         | Inr r1 \<Rightarrow>
             (case raise_for_status r1 of
                Inl e \<Rightarrow> ([HttpGet login_url], Inl e)
              | Inr _ \<Rightarrow>
                  (let reqs = [HttpGet login_url,
                               HttpPost (base_url s @ ''/security/login#'') (login_data s (text_str r1))]
                   in case landing of
                        Inl e \<Rightarrow> (reqs, Inl e)
                      | Inr r2 \<Rightarrow>
                          (case raise_for_status r2 of
                             Inl e \<Rightarrow> (reqs, Inl e)
                           | Inr _ \<Rightarrow> (reqs, Inr (url_path r2 \<noteq> ''/security/login''))))))"

definition login :: "GameSession \<Rightarrow> reply \<Rightarrow> reply \<Rightarrow> event list \<times> (exn + bool)" where
  "login s page landing =
     (if \<not> client s then ([], Inl RuntimeError)
      else case login_try s page landing of
             (evs, Inr b) \<Rightarrow> (evs, Inr b)
           | (evs, Inl e) \<Rightarrow>
               if caught_by_session e then (evs @ [Print (LoginFailed e)], Inr False)
               else (evs, Inl e))"

text \<open>\<^verbatim>\<open>click\<close>, lines 162 to 187.\<close>

definition click_try :: "GameSession \<Rightarrow> reply \<Rightarrow> event list \<times> (exn + bool)" where
  "click_try s answer =
     (let req = [HttpPost (base_url s @ ''/game/energy/action'') []]
      in case answer of
           Inl e \<Rightarrow> (req, Inl e)
         | Inr r \<Rightarrow>
             (case raise_for_status r of
                Inl e \<Rightarrow> (req, Inl e)
              | Inr _ \<Rightarrow> (req, Inr (status_code r = 200 \<or> status_code r = 302))))"

definition click :: "GameSession \<Rightarrow> reply \<Rightarrow> event list \<times> (exn + bool)" where
  "click s answer =
     (if \<not> client s then ([], Inl RuntimeError)
      else case click_try s answer of
             (evs, Inr b) \<Rightarrow> (evs, Inr b)
           | (evs, Inl e) \<Rightarrow>
               if caught_by_session e then (evs @ [Print (ClickActionFailed e)], Inr False)
               else (evs, Inl e))"

text \<open>
  The dictionary \<^verbatim>\<open>get_game_state\<close> returns. \<open>timestamp\<close> is
  \<^verbatim>\<open>datetime.now().isoformat()\<close>, read from the wall clock.
\<close>

record game_state =
  timestamp :: string
  gs_status_code :: int
  gs_url :: string
  next_click_in_seconds :: "real option"

text \<open>\<^verbatim>\<open>get_game_state\<close>, lines 189 to 220. A zero \<^verbatim>\<open>timedelta\<close> is falsy.\<close>

definition get_game_state_try ::
  "stdlib \<Rightarrow> GameSession \<Rightarrow> string \<Rightarrow> reply \<Rightarrow> event list \<times> (exn + game_state option)" where
  "get_game_state_try lib s wall answer =
     (let req = [HttpGet (base_url s @ ''/game/energy'')]
      in case answer of
           Inl e \<Rightarrow> (req, Inl e)
         | Inr r \<Rightarrow>
             (case raise_for_status r of
                Inl e \<Rightarrow> (req, Inl e)
              | Inr _ \<Rightarrow>
                  (case extract_next_click_time lib (text_str r) of
                     (evs, Inl e) \<Rightarrow> (req @ evs, Inl e)
                   | (evs, Inr next_click_delta) \<Rightarrow>
                       (req @ evs,
                        Inr (Some \<lparr>timestamp = wall,
                                   gs_status_code = status_code r,
                                   gs_url = url r,
                                   next_click_in_seconds =
                                     (if next_click_delta \<noteq> 0
                                      then Some (total_seconds next_click_delta)
                                      else None)\<rparr>)))))"

definition get_game_state ::
  "stdlib \<Rightarrow> GameSession \<Rightarrow> string \<Rightarrow> reply \<Rightarrow> event list \<times> (exn + game_state option)" where
  "get_game_state lib s wall answer =
     (if \<not> client s then ([], Inl RuntimeError)
      else case get_game_state_try lib s wall answer of
             (evs, Inr st) \<Rightarrow> (evs, Inr st)
           | (evs, Inl e) \<Rightarrow>
               if caught_by_session e then (evs @ [Print (FailedToFetchGameState e)], Inr None)
               else (evs, Inl e))"

section \<open>The scheduler\<close>

text \<open>
  \<^verbatim>\<open>EnergyBot\<close>. The constructor raises \<^verbatim>\<open>ValueError\<close> on an empty email or
  password. The field \<^verbatim>\<open>session\<close> is written by \<^verbatim>\<open>run\<close> and never read.
\<close>

record EnergyBot =
  bot_email :: string
  bot_password :: string
  bot_base_url :: string
  click_count :: int

definition EnergyBot_init :: "string \<Rightarrow> string \<Rightarrow> string \<Rightarrow> exn + EnergyBot" where
  "EnergyBot_init em pw base =
     (if em = [] \<or> pw = [] then Inl ValueError
      else Inr \<lparr>bot_email = em, bot_password = pw, bot_base_url = base, click_count = 0\<rparr>)"

text \<open>The arguments of \<^verbatim>\<open>run\<close>; \<open>None\<close> is Python's \<^verbatim>\<open>None\<close>.\<close>

record run_args =
  click_interval :: "real option"
  max_clicks :: "int option"
  duration :: "real option"

text \<open>
  What the world supplies to one run: before the loop, the transport's answers to the
  two requests of \<^verbatim>\<open>login\<close> and to the first \<^verbatim>\<open>get_game_state\<close>, the wall clock
  and the event loop's clock; for each iteration of the loop, a \<open>tick\<close>. An exception
  can be delivered while the coroutine awaits the transport (an \<open>Inl\<close> answer) or sleeps
  (\<open>sleep_raises\<close>).
\<close>

record prologue =
  login_page :: reply
  login_landing :: reply
  first_wall :: string
  first_state :: reply
  start_time :: real

record tick =
  now :: real
  wall :: string
  state_answer :: reply
  sample :: real
  sleep_raises :: "exn option"
  click_answer :: reply

text \<open>Lines 287 to 297: the two stop conditions, each guarded by the truthiness of its limit.\<close>

definition count_limit :: "run_args \<Rightarrow> int \<Rightarrow> int option" where
  "count_limit a cnt =
     (case max_clicks a of
        None \<Rightarrow> None
      | Some m \<Rightarrow> if m \<noteq> 0 \<and> cnt \<ge> m then Some m else None)"

definition duration_limit :: "run_args \<Rightarrow> real \<Rightarrow> real \<Rightarrow> real option" where
  "duration_limit a start t =
     (case duration a of
        None \<Rightarrow> None
      | Some d \<Rightarrow> if d \<noteq> 0 \<and> t - start \<ge> d then Some d else None)"

text \<open>Lines 301 to 303: the server's cooldown, read from the fetched state.\<close>

definition server_wait :: "game_state option \<Rightarrow> real" where
  "server_wait state =
     (case state of
        None \<Rightarrow> 0
      | Some st \<Rightarrow>
          (case next_click_in_seconds st of
             None \<Rightarrow> 0
           | Some v \<Rightarrow> if v \<noteq> 0 then max 0 v else 0))"

text \<open>Lines 310 to 312, on \<^verbatim>\<open>server_wait_time\<close> after the jitter has been added.\<close>

definition floor_wait :: "real option \<Rightarrow> real \<Rightarrow> real" where
  "floor_wait interval server_wait_time =
     (case interval of
        None \<Rightarrow> server_wait_time
      | Some ci \<Rightarrow> if ci > 0 then max server_wait_time ci else server_wait_time)"

definition wait_time :: "real option \<Rightarrow> game_state option \<Rightarrow> real \<Rightarrow> real" where
  "wait_time interval state human_delay = floor_wait interval (server_wait state + human_delay)"

text \<open>Lines 322 to 330: the click and the counter.\<close>

definition perform_click :: "GameSession \<Rightarrow> int \<Rightarrow> reply \<Rightarrow> event list \<times> (exn + int)" where
  "perform_click s cnt answer =
     (case click s answer of
        (evs, Inl e) \<Rightarrow> (evs, Inl e)
      | (evs, Inr success) \<Rightarrow>
          if success
          then (evs @ (if (cnt + 1) mod 10 = 0 then [Print (Clicks (cnt + 1))] else []),
                Inr (cnt + 1))
          else (evs @ [Print ClickFailedRetrying], Inr cnt))"

text \<open>
  Lines 299 to 330: one pass through the body of the loop after the stop conditions;
  \<open>interval\<close> is \<^verbatim>\<open>click_interval\<close>. The result is the new value of \<^verbatim>\<open>click_count\<close>, or the exception that left the body.
\<close>

definition act ::
  "stdlib \<Rightarrow> GameSession \<Rightarrow> real option \<Rightarrow> int \<Rightarrow> tick \<Rightarrow> event list \<times> (exn + int)" where
  "act lib s interval cnt t =
     (case get_game_state lib s (wall t) (state_answer t) of
        (evs1, Inl e) \<Rightarrow> (evs1, Inl e)
      | (evs1, Inr state) \<Rightarrow>
          (let human_delay = humaniser (sample t);
               server_wait_time = server_wait state + human_delay;
               wt = wait_time interval state human_delay;
               evs2 = evs1 @ [Print (HumanizerDelay human_delay)]
                        @ (if server_wait_time > 1 then [Print (ServerCooldown server_wait_time)]
                           else [])
           in if wt > 0
              then (case sleep_raises t of
                      Some e \<Rightarrow> (evs2 @ [Sleep wt], Inl e)
                    | None \<Rightarrow>
                        (case perform_click s cnt (click_answer t) of
                           (evs3, r) \<Rightarrow> (evs2 @ [Sleep wt] @ evs3, r)))
              else (case perform_click s cnt (click_answer t) of
                      (evs3, r) \<Rightarrow> (evs2 @ evs3, r))))"

text \<open>
  Lines 286 to 330: the loop, over the ticks the world supplies. The result is the
  events, the exception that left the loop (\<open>None\<close> after a \<^verbatim>\<open>break\<close>) and the final
  \<^verbatim>\<open>click_count\<close>; it is \<open>None\<close> when the loop is still running after the last tick.
\<close>

fun loop ::
  "stdlib \<Rightarrow> GameSession \<Rightarrow> run_args \<Rightarrow> real \<Rightarrow> int \<Rightarrow> tick list
     \<Rightarrow> (event list \<times> exn option \<times> int) option" where
  "loop lib s a start cnt [] =
     (case count_limit a cnt of
        Some m \<Rightarrow> Some ([Print (ReachedMaxClicks m)], None, cnt)
      | None \<Rightarrow> None)"
| "loop lib s a start cnt (t # ts) =
     (case count_limit a cnt of
        Some m \<Rightarrow> Some ([Print (ReachedMaxClicks m)], None, cnt)
      | None \<Rightarrow>
          (case duration_limit a start (now t) of
             Some d \<Rightarrow> Some ([Print (ReachedDuration d)], None, cnt)
           | None \<Rightarrow>
               (case act lib s (click_interval a) cnt t of
                  (evs, Inl e) \<Rightarrow> Some (evs, Some e, cnt)
                | (evs, Inr cnt') \<Rightarrow>
                    (case loop lib s a start cnt' ts of
                       None \<Rightarrow> None
                     | Some (evs', r, c) \<Rightarrow> Some (evs @ evs', r, c)))))"

text \<open>Lines 270 to 281: what is printed between the login and the loop.\<close>

definition state_report :: "game_state option \<Rightarrow> event list" where
  "state_report state =
     (case state of
        None \<Rightarrow> []
      | Some st \<Rightarrow>
          Print GameStateRetrieved #
          (case next_click_in_seconds st of
             None \<Rightarrow> []
           | Some next_click \<Rightarrow>
               if next_click > 0 then [Print (NextClickAvailableIn next_click)] else []))"

definition starting :: "run_args \<Rightarrow> event" where
  "starting a =
     (case click_interval a of
        Some ci \<Rightarrow> Print (StartingInterval ci)
      | None \<Rightarrow> Print StartingDynamic)"

text \<open>
  Lines 332 to 339: \<^verbatim>\<open>except KeyboardInterrupt\<close> and \<^verbatim>\<open>finally\<close>. \<open>r\<close> is how the
  loop was left; the result is what is printed and the exception that goes on.
\<close>

definition finish :: "exn option \<Rightarrow> int \<Rightarrow> real \<Rightarrow> event list \<times> exn option" where
  "finish r cnt elapsed =
     (let report = [Print (BotFinished cnt elapsed)]
      in case r of
           None \<Rightarrow> (report, None)
         | Some e \<Rightarrow>
             if e = KeyboardInterrupt then (Print BotInterrupted # report, None)
             else (report, Some e))"

text \<open>
  \<^verbatim>\<open>EnergyBot.run\<close>, lines 253 to 339. \<open>end_time\<close> is the event loop's clock when
  the \<^verbatim>\<open>finally\<close> block reads it. The result is the events, the exception the caller
  receives (\<open>None\<close> on a normal return) and the bot afterwards; it is \<open>None\<close> when the
  run is still in its loop after the last tick.
\<close>

definition run ::
  "stdlib \<Rightarrow> EnergyBot \<Rightarrow> run_args \<Rightarrow> prologue \<Rightarrow> tick list \<Rightarrow> real
     \<Rightarrow> (event list \<times> exn option \<times> EnergyBot) option" where
  "run lib self a p ticks end_time =
     (let s = aenter (bot_email self) (bot_password self) (bot_base_url self)
      in case login s (login_page p) (login_landing p) of
           (evl, Inl e) \<Rightarrow> Some (Print LoggingIn # evl @ aexit s, Some e, self)
         | (evl, Inr ok) \<Rightarrow>
             if \<not> ok
             then Some (Print LoggingIn # evl @ [Print FailedToLoginAborting] @ aexit s, None, self)
             else
               (let evs0 = Print LoggingIn # evl @ [Print (LoginSuccessful (bot_email self))]
                in case get_game_state lib s (first_wall p) (first_state p) of
                     (evg, Inl e) \<Rightarrow> Some (evs0 @ evg @ aexit s, Some e, self)
                   | (evg, Inr state) \<Rightarrow>
                       (case loop lib s a (start_time p) (click_count self) ticks of
                          None \<Rightarrow> None
                        | Some (evs, r, cnt) \<Rightarrow>
                            (case finish r cnt (end_time - start_time p) of
                               (evf, r') \<Rightarrow>
                                 Some (evs0 @ evg @ state_report state @ [starting a]
                                         @ evs @ evf @ aexit s,
                                       r', self\<lparr>click_count := cnt\<rparr>)))))"

section \<open>Observations on a trace\<close>

text \<open>The durations slept, in order.\<close>

fun sleeps :: "event list \<Rightarrow> real list" where
  "sleeps [] = []"
| "sleeps (Sleep w # evs) = w # sleeps evs"
| "sleeps (e # evs) = sleeps evs"

text \<open>The final reports (\<^verbatim>\<open>Bot finished. Total clicks: ... in ...s\<close>), in order.\<close>

fun reports :: "event list \<Rightarrow> (int \<times> real) list" where
  "reports [] = []"
| "reports (Print (BotFinished n elapsed) # evs) = (n, elapsed) # reports evs"
| "reports (e # evs) = reports evs"

text \<open>The number of click actions issued, and of requests for the login page.\<close>

definition click_requests :: "GameSession \<Rightarrow> event list \<Rightarrow> nat" where
  "click_requests s evs =
     length (filter (\<lambda>e. e = HttpPost (base_url s @ ''/game/energy/action'') []) evs)"

definition login_requests :: "GameSession \<Rightarrow> event list \<Rightarrow> nat" where
  "login_requests s evs =
     length (filter (\<lambda>e. e = HttpGet (base_url s @ ''/security/login'')) evs)"

text \<open>
  The waits and the click actions of a trace, in the order in which they happen.
\<close>

datatype action = Waited real | Clicked

fun schedule :: "GameSession \<Rightarrow> event list \<Rightarrow> action list" where
  "schedule s [] = []"
| "schedule s (Sleep w # evs) = Waited w # schedule s evs"
| "schedule s (HttpPost u d # evs) =
     (if u = base_url s @ ''/game/energy/action'' \<and> d = [] then Clicked # schedule s evs
      else schedule s evs)"
| "schedule s (e # evs) = schedule s evs"

section \<open>Example inputs\<close>

text \<open>
  The standard library on the texts of the examples: what \<^verbatim>\<open>json.loads\<close> and
  \<^verbatim>\<open>datetime.fromisoformat\<close> return for each of them (microseconds counted from
  1970-01-01T00:00:00, in UTC for an aware timestamp). The examples use no other text.
\<close>

definition example_json :: "string \<Rightarrow> exn + pyval" where
  \<open>example_json s =
     (if s = ''[{"start-date":"2025-01-01T12:00:00+00:00","end-date":"2025-01-01T12:00:05+00:00"}]''
      then Inr (PList [PDict [(''start-date'', PStr ''2025-01-01T12:00:00+00:00''),
                              (''end-date'', PStr ''2025-01-01T12:00:05+00:00'')]])
      else if s = ''[{"start-date":"2025-01-01T12:00:00","end-date":"2025-01-01T12:00:05+00:00"}]''
      then Inr (PList [PDict [(''start-date'', PStr ''2025-01-01T12:00:00''),
                              (''end-date'', PStr ''2025-01-01T12:00:05+00:00'')]])
      else if s = ''[1]'' then Inr (PList [PInt 1])
      else Inl JSONDecodeError)\<close>

definition example_fromisoformat :: "string \<Rightarrow> exn + datetime" where
  "example_fromisoformat s =
     (if s = ''2025-01-01T12:00:00+00:00'' then Inr (Aware 1735732800000000)
      else if s = ''2025-01-01T12:00:05+00:00'' then Inr (Aware 1735732805000000)
      else if s = ''2025-01-01T12:00:00'' then Inr (Naive 1735732800000000)
      else Inl ValueError)"

definition example_stdlib :: stdlib where
  "example_stdlib = \<lparr>json_loads = example_json, fromisoformat = example_fromisoformat\<rparr>"

text \<open>
  Markup holding a counter element whose attribute value is \<open>payload\<close>, and two
  payloads: one event of five seconds, entity-encoded and broken over two lines, and the
  JSON array \<^verbatim>\<open>[1]\<close>.
\<close>

definition counter_element :: "string \<Rightarrow> string" where
  \<open>counter_element payload =
     ''<div data-controller="counter" data-counter-events-value="'' @ payload @ ''"></div>''\<close>

definition five_seconds_payload :: string where
  "five_seconds_payload =
     ''[{&quot;start-date&quot;:&quot;2025-01-01T12:00:00+00:00&quot;,'' @ [newline]
     @ ''&quot;end-date&quot;:&quot;2025-01-01T12:00:05+00:00&quot;}]''"

definition number_payload :: string where
  "number_payload = ''[1]''"

text \<open>
  The same event with a start that carries no UTC offset: a naive timestamp beside an
  aware one.
\<close>

definition mixed_payload :: string where
  "mixed_payload =
     ''[{&quot;start-date&quot;:&quot;2025-01-01T12:00:00&quot;,''
     @ ''&quot;end-date&quot;:&quot;2025-01-01T12:00:05+00:00&quot;}]''"

text \<open>
  A bot as \<^verbatim>\<open>EnergyBot("player@example.com", "secret")\<close> constructs it, and answers of
  the transport: a login page with no anti-forgery token, a landing page after accepted
  and after rejected credentials, a game page with no counter element, the answer to a
  click, and a server error.
\<close>

definition example_bot :: EnergyBot where
  "example_bot =
     \<lparr>bot_email = ''player@example.com'', bot_password = ''secret'',
      bot_base_url = ''https://cgj.bpaul.fr'', click_count = 0\<rparr>"

definition example_session :: GameSession where
  "example_session = aenter ''player@example.com'' ''secret'' ''https://cgj.bpaul.fr''"

definition login_form :: response where
  "login_form =
     \<lparr>status_code = 200, url = ''https://cgj.bpaul.fr/security/login'',
      url_path = ''/security/login'', text_str = ''<form></form>''\<rparr>"

definition landing_accepted :: response where
  "landing_accepted =
     \<lparr>status_code = 200, url = ''https://cgj.bpaul.fr/'', url_path = ''/'',
      text_str = ''<html></html>''\<rparr>"

definition landing_rejected :: response where
  "landing_rejected =
     \<lparr>status_code = 200, url = ''https://cgj.bpaul.fr/security/login'',
      url_path = ''/security/login'', text_str = ''<form></form>''\<rparr>"

definition game_page_ready :: response where
  "game_page_ready =
     \<lparr>status_code = 200, url = ''https://cgj.bpaul.fr/game/energy'',
      url_path = ''/game/energy'', text_str = ''<html></html>''\<rparr>"

definition server_error :: response where
  "server_error =
     \<lparr>status_code = 500, url = ''https://cgj.bpaul.fr/game/energy/action'',
      url_path = ''/game/energy/action'', text_str = ''Internal Server Error''\<rparr>"

definition accepted_prologue :: prologue where
  "accepted_prologue =
     \<lparr>login_page = Inr login_form, login_landing = Inr landing_accepted,
      first_wall = ''2025-01-01T12:00:00'', first_state = Inr game_page_ready,
      start_time = 100\<rparr>"

definition rejected_prologue :: prologue where
  "rejected_prologue =
     \<lparr>login_page = Inr login_form, login_landing = Inr landing_rejected,
      first_wall = ''2025-01-01T12:00:00'', first_state = Inr game_page_ready,
      start_time = 100\<rparr>"

text \<open>
  A tick in which the game page shows no counter, the draw of the jitter is 0, nothing
  interrupts the sleep, and the transport answers the click with \<open>answer\<close>.
\<close>

definition ready_tick :: "real \<Rightarrow> reply \<Rightarrow> tick" where
  "ready_tick clock answer =
     \<lparr>now = clock, wall = ''2025-01-01T12:00:00'', state_answer = Inr game_page_ready,
      sample = 0, sleep_raises = None, click_answer = answer\<rparr>"

text \<open>
  A game page whose counter holds the event of five seconds, and a tick in which the
  server shows that page.
\<close>

definition game_page_cooldown :: response where
  "game_page_cooldown =
     \<lparr>status_code = 200, url = ''https://cgj.bpaul.fr/game/energy'',
      url_path = ''/game/energy'', text_str = counter_element five_seconds_payload\<rparr>"

definition cooldown_tick :: "real \<Rightarrow> reply \<Rightarrow> tick" where
  "cooldown_tick clock answer =
     \<lparr>now = clock, wall = ''2025-01-01T12:00:00'', state_answer = Inr game_page_cooldown,
      sample = 0, sleep_raises = None, click_answer = answer\<rparr>"

definition no_limits :: run_args where
  "no_limits = \<lparr>click_interval = None, max_clicks = None, duration = None\<rparr>"

section \<open>Events of the session's methods\<close>

lemma sleeps_append: "sleeps (xs @ ys) = sleeps xs @ sleeps ys"
  by (induction xs rule: sleeps.induct) simp_all

lemma schedule_append: "schedule s (xs @ ys) = schedule s xs @ schedule s ys"
  by (induction s xs rule: schedule.induct) simp_all

lemma schedule_extract: "extract_next_click_time lib html = (evs, r) \<Longrightarrow> schedule s evs = []"
  by (auto simp: extract_next_click_time_def split: option.splits sum.splits if_splits)

lemma schedule_get_game_state: "get_game_state lib s w r = (evs, st) \<Longrightarrow> schedule s evs = []"
  by (auto simp: get_game_state_def get_game_state_try_def schedule_append Let_def
      split: sum.splits prod.splits if_splits dest: schedule_extract)

lemma get_game_state_client: "get_game_state lib s w r = (evs, Inr st) \<Longrightarrow> client s"
  by (auto simp: get_game_state_def split: if_splits)

lemma schedule_click: "client s \<Longrightarrow> click s r = (evs, b) \<Longrightarrow> schedule s evs = [Clicked]"
  by (auto simp: click_def click_try_def schedule_append Let_def
      split: sum.splits prod.splits if_splits)

lemma schedule_perform_click:
  "client s \<Longrightarrow> perform_click s cnt r = (evs, c) \<Longrightarrow> schedule s evs = [Clicked]"
  by (auto simp: perform_click_def schedule_append
      split: sum.splits prod.splits if_splits dest: schedule_click)

lemma schedule_login: "login s page landing = (evs, r) \<Longrightarrow> schedule s evs = []"
  by (auto simp: login_def login_try_def Let_def login_data_def schedule_append
      split: sum.splits prod.splits if_splits)

lemma schedule_finish: "finish r cnt el = (evs, r') \<Longrightarrow> schedule s evs = []"
  by (auto simp: finish_def Let_def split: option.splits if_splits)

lemma schedule_misc:
  "schedule s (state_report st) = []" "schedule s (starting a # evs) = schedule s evs"
  "schedule s (aexit s') = []"
  by (auto simp: state_report_def starting_def aexit_def split: option.splits)

lemma reports_append: "reports (xs @ ys) = reports xs @ reports ys"
  by (induction xs rule: reports.induct) simp_all

lemma reports_extract: "extract_next_click_time lib html = (evs, r) \<Longrightarrow> reports evs = []"
  by (auto simp: extract_next_click_time_def split: option.splits sum.splits if_splits)

lemma reports_get_game_state: "get_game_state lib s w r = (evs, st) \<Longrightarrow> reports evs = []"
  by (auto simp: get_game_state_def get_game_state_try_def reports_append Let_def
      split: sum.splits prod.splits if_splits dest: reports_extract)

lemma reports_click: "click s r = (evs, b) \<Longrightarrow> reports evs = []"
  by (auto simp: click_def click_try_def reports_append Let_def
      split: sum.splits prod.splits if_splits)

lemma reports_perform_click: "perform_click s cnt r = (evs, c) \<Longrightarrow> reports evs = []"
  by (auto simp: perform_click_def reports_append
      split: sum.splits prod.splits if_splits dest: reports_click)

lemma reports_login: "login s page landing = (evs, r) \<Longrightarrow> reports evs = []"
  by (auto simp: login_def login_try_def Let_def reports_append
      split: sum.splits prod.splits if_splits)

lemma reports_act: "act lib s interval cnt t = (evs, r) \<Longrightarrow> reports evs = []"
proof -
  assume a: "act lib s interval cnt t = (evs, r)"
  obtain evs1 r1 where g: "get_game_state lib s (wall t) (state_answer t) = (evs1, r1)"
    by (cases "get_game_state lib s (wall t) (state_answer t)")
  obtain evs3 r3 where c: "perform_click s cnt (click_answer t) = (evs3, r3)"
    by (cases "perform_click s cnt (click_answer t)")
  have s1: "reports evs1 = []" using g by (rule reports_get_game_state)
  have s3: "reports evs3 = []" using c by (rule reports_perform_click)
  show ?thesis
    using a s1 s3
    by (cases r1; cases "sleep_raises t")
       (auto simp: act_def g c reports_append Let_def split: if_splits)
qed

lemma reports_loop: "loop lib s a start cnt ticks = Some (evs, r, c) \<Longrightarrow> reports evs = []"
proof (induction ticks arbitrary: cnt evs)
  case Nil
  then show ?case by (auto split: option.splits)
next
  case (Cons t ts)
  show ?case
  proof (cases "count_limit a cnt")
    case (Some m)
    then show ?thesis using Cons.prems by auto
  next
    case None
    note cl = None
    show ?thesis
    proof (cases "duration_limit a start (now t)")
      case (Some d)
      then show ?thesis using Cons.prems cl by auto
    next
      case None
      obtain evi res where a: "act lib s (click_interval a) cnt t = (evi, res)"
        by (cases "act lib s (click_interval a) cnt t")
      have ri: "reports evi = []" using a by (rule reports_act)
      show ?thesis
      proof (cases res)
        case (Inl x)
        then show ?thesis using Cons.prems cl None a ri by auto
      next
        case (Inr cnt')
        then obtain evs' where l': "loop lib s a start cnt' ts = Some (evs', r, c)"
          and e: "evs = evi @ evs'"
          using Cons.prems cl None a by (auto split: option.splits)
        then show ?thesis using Cons.IH[OF l'] ri by (simp add: reports_append)
      qed
    qed
  qed
qed

lemma reports_finish: "finish r cnt el = (evs, r') \<Longrightarrow> reports evs = [(cnt, el)]"
  by (auto simp: finish_def Let_def split: option.splits if_splits)

lemma reports_misc:
  "reports (state_report st) = []" "reports (starting a # evs) = reports evs"
  "reports (aexit s') = []"
  by (auto simp: state_report_def starting_def aexit_def split: option.splits)

lemma finish_shape:
  "finish r cnt el =
     ((if r = Some KeyboardInterrupt then [Print BotInterrupted] else [])
        @ [Print (BotFinished cnt el)],
      if r = Some KeyboardInterrupt then None else r)"
  by (auto simp: finish_def Let_def split: option.splits)

lemma click_requests_append:
  "click_requests s (xs @ ys) = click_requests s xs + click_requests s ys"
  by (simp add: click_requests_def)

lemma click_requests_schedule:
  "click_requests s evs = length (filter (\<lambda>x. x = Clicked) (schedule s evs))"
  by (induction s evs rule: schedule.induct) (auto simp: click_requests_def)

lemma click_requests_get_game_state:
  "get_game_state lib s w r = (evs, st) \<Longrightarrow> click_requests s evs = 0"
  by (simp add: click_requests_schedule schedule_get_game_state)

lemma click_requests_click:
  "client s \<Longrightarrow> click s r = (evs, b) \<Longrightarrow> click_requests s evs = 1"
  by (simp add: click_requests_schedule schedule_click)

section \<open>The examples evaluated\<close>

lemma search_five_seconds:
  "re_search counter_lit1 counter_lit2 (counter_element five_seconds_payload)
     = Some five_seconds_payload"
  by code_simp

lemma decode_five_seconds:
  \<open>replace [newline] [] (replace ''&quot;'' [dquote] five_seconds_payload)
     = ''[{"start-date":"2025-01-01T12:00:00+00:00","end-date":"2025-01-01T12:00:05+00:00"}]''\<close>
  by code_simp

lemma search_number:
  "re_search counter_lit1 counter_lit2 (counter_element number_payload) = Some ''[1]''"
  by code_simp

lemma decode_number: "replace [newline] [] (replace ''&quot;'' [dquote] ''[1]'') = ''[1]''"
  by code_simp

lemma search_no_counter: "re_search counter_lit1 counter_lit2 ''<html></html>'' = None"
  by code_simp

lemma search_mixed:
  "re_search counter_lit1 counter_lit2 (counter_element mixed_payload) = Some mixed_payload"
  by code_simp

lemma decode_mixed:
  \<open>replace [newline] [] (replace ''&quot;'' [dquote] mixed_payload)
     = ''[{"start-date":"2025-01-01T12:00:00","end-date":"2025-01-01T12:00:05+00:00"}]''\<close>
  by code_simp

lemma extract_five_seconds:
  "extract_next_click_time example_stdlib (counter_element five_seconds_payload)
     = ([], Inr 5000000)"
  by (simp add: extract_next_click_time_def search_five_seconds parse_counter_def
      decode_five_seconds example_stdlib_def example_json_def example_fromisoformat_def
      event_timeout_def total_seconds_def)

lemma extract_ready: "extract_next_click_time lib ''<html></html>'' = ([], Inr 0)"
  using search_no_counter by (simp only: extract_next_click_time_def option.case)

lemma example_session_fields:
  "base_url example_session = ''https://cgj.bpaul.fr''" "client example_session"
  "example_session
     = aenter (bot_email example_bot) (bot_password example_bot) (bot_base_url example_bot)"
  by (simp_all add: example_session_def example_bot_def aenter_def)

lemma login_accepted:
  "login example_session (Inr login_form) (Inr landing_accepted) =
     ([HttpGet ''https://cgj.bpaul.fr/security/login'',
       HttpPost ''https://cgj.bpaul.fr/security/login#''
         [(''_username'', ''player@example.com''), (''_password'', ''secret''),
          (''_remember_me'', ''on'')]],
      Inr True)"
  by (simp add: login_def login_try_def example_session_def aenter_def login_form_def
      landing_accepted_def raise_for_status_def login_data_def csrf_lit1_def csrf_lit2_def
      match_attr_def)

lemma login_rejected:
  "login example_session (Inr login_form) (Inr landing_rejected) =
     ([HttpGet ''https://cgj.bpaul.fr/security/login'',
       HttpPost ''https://cgj.bpaul.fr/security/login#''
         [(''_username'', ''player@example.com''), (''_password'', ''secret''),
          (''_remember_me'', ''on'')]],
      Inr False)"
  by (simp add: login_def login_try_def example_session_def aenter_def login_form_def
      landing_rejected_def raise_for_status_def login_data_def csrf_lit1_def csrf_lit2_def
      match_attr_def)

lemma state_cooldown:
  "get_game_state example_stdlib example_session w (Inr game_page_cooldown) =
     ([HttpGet ''https://cgj.bpaul.fr/game/energy''],
      Inr (Some \<lparr>timestamp = w, gs_status_code = 200,
                 gs_url = ''https://cgj.bpaul.fr/game/energy'',
                 next_click_in_seconds = Some 5\<rparr>))"
  by (simp add: get_game_state_def get_game_state_try_def example_session_def aenter_def
      game_page_cooldown_def raise_for_status_def extract_five_seconds total_seconds_def)

lemma state_ready:
  "get_game_state lib example_session w (Inr game_page_ready) =
     ([HttpGet ''https://cgj.bpaul.fr/game/energy''],
      Inr (Some \<lparr>timestamp = w, gs_status_code = 200,
                 gs_url = ''https://cgj.bpaul.fr/game/energy'',
                 next_click_in_seconds = None\<rparr>))"
  using extract_ready[of lib]
  by (simp add: get_game_state_def get_game_state_try_def example_session_def aenter_def
      game_page_ready_def raise_for_status_def)

lemma click_ok:
  "click example_session (Inr game_page_ready) =
     ([HttpPost ''https://cgj.bpaul.fr/game/energy/action'' []], Inr True)"
  by (simp add: click_def click_try_def example_session_def aenter_def game_page_ready_def
      raise_for_status_def)

lemma click_failed:
  "click example_session (Inl RequestError) =
     ([HttpPost ''https://cgj.bpaul.fr/game/energy/action'' [],
       Print (ClickActionFailed RequestError)], Inr False)"
  by (simp add: click_def click_try_def example_session_def aenter_def caught_by_session_def)

lemma humaniser_at_zero: "humaniser 0 = 8/5"
  by (simp add: humaniser_def)

lemma now_ready_tick: "now (ready_tick clock answer) = clock"
  by (simp add: ready_tick_def)

lemma ready_tick_fields:
  "wall (ready_tick clock answer) = ''2025-01-01T12:00:00''"
  "state_answer (ready_tick clock answer) = Inr game_page_ready"
  "sample (ready_tick clock answer) = 0"
  "sleep_raises (ready_tick clock answer) = None"
  "click_answer (ready_tick clock answer) = answer"
  by (simp_all add: ready_tick_def)

lemma accepted_fields:
  "login example_session (login_page accepted_prologue) (login_landing accepted_prologue)
     = ([HttpGet ''https://cgj.bpaul.fr/security/login'',
         HttpPost ''https://cgj.bpaul.fr/security/login#''
           [(''_username'', ''player@example.com''), (''_password'', ''secret''),
            (''_remember_me'', ''on'')]],
        Inr True)"
  "get_game_state lib example_session (first_wall accepted_prologue)
             (first_state accepted_prologue)
           = ([HttpGet ''https://cgj.bpaul.fr/game/energy''],
              Inr (Some \<lparr>timestamp = ''2025-01-01T12:00:00'', gs_status_code = 200,
                         gs_url = ''https://cgj.bpaul.fr/game/energy'',
                         next_click_in_seconds = None\<rparr>))"
  "start_time accepted_prologue = 100" "click_count example_bot = 0"
  by (simp_all add: accepted_prologue_def login_accepted state_ready example_bot_def)

lemma act_cooldown_ok:
  "act example_stdlib example_session (Some 2) cnt (cooldown_tick clock (Inr game_page_ready)) =
     ([HttpGet ''https://cgj.bpaul.fr/game/energy'', Print (HumanizerDelay (8/5)),
       Print (ServerCooldown (33/5)), Sleep (33/5),
       HttpPost ''https://cgj.bpaul.fr/game/energy/action'' []]
      @ (if (cnt + 1) mod 10 = 0 then [Print (Clicks (cnt + 1))] else []),
      Inr (cnt + 1))"
  by (simp add: act_def cooldown_tick_def state_cooldown humaniser_at_zero wait_time_def
      floor_wait_def server_wait_def perform_click_def click_ok Let_def)

lemma act_ready_ok:
  "act lib example_session None cnt (ready_tick clock (Inr game_page_ready)) =
     ([HttpGet ''https://cgj.bpaul.fr/game/energy'', Print (HumanizerDelay (8/5)),
       Print (ServerCooldown (8/5)), Sleep (8/5),
       HttpPost ''https://cgj.bpaul.fr/game/energy/action'' []]
      @ (if (cnt + 1) mod 10 = 0 then [Print (Clicks (cnt + 1))] else []),
      Inr (cnt + 1))"
  by (simp add: act_def ready_tick_def state_ready humaniser_at_zero wait_time_def
      floor_wait_def server_wait_def perform_click_def click_ok Let_def)

lemma act_ready_failed:
  "act lib example_session None cnt (ready_tick clock (Inl RequestError)) =
     ([HttpGet ''https://cgj.bpaul.fr/game/energy'', Print (HumanizerDelay (8/5)),
       Print (ServerCooldown (8/5)), Sleep (8/5),
       HttpPost ''https://cgj.bpaul.fr/game/energy/action'' [],
       Print (ClickActionFailed RequestError), Print ClickFailedRetrying],
      Inr cnt)"
  by (simp add: act_def ready_tick_def state_ready humaniser_at_zero wait_time_def
      floor_wait_def server_wait_def perform_click_def click_failed Let_def)

lemma run_accepted:
  "run lib example_bot a accepted_prologue ticks e =
     (case loop lib example_session a 100 0 ticks of
        None \<Rightarrow> None
      | Some (evs, r, cnt) \<Rightarrow>
          (case finish r cnt (e - 100) of
             (evf, r') \<Rightarrow>
               Some ([Print LoggingIn,
                      HttpGet ''https://cgj.bpaul.fr/security/login'',
                      HttpPost ''https://cgj.bpaul.fr/security/login#''
                        [(''_username'', ''player@example.com''), (''_password'', ''secret''),
                         (''_remember_me'', ''on'')],
                      Print (LoginSuccessful ''player@example.com''),
                      HttpGet ''https://cgj.bpaul.fr/game/energy'',
                      Print GameStateRetrieved, starting a]
                     @ evs @ evf @ [Aclose],
                     r', example_bot\<lparr>click_count := cnt\<rparr>)))"
proof -
  have l: "login example_session (login_page accepted_prologue) (login_landing accepted_prologue)
     = ([HttpGet ''https://cgj.bpaul.fr/security/login'',
         HttpPost ''https://cgj.bpaul.fr/security/login#''
           [(''_username'', ''player@example.com''), (''_password'', ''secret''),
            (''_remember_me'', ''on'')]],
        Inr True)"
    by (simp add: accepted_prologue_def login_accepted)
  have g: "get_game_state lib example_session (first_wall accepted_prologue)
             (first_state accepted_prologue)
           = ([HttpGet ''https://cgj.bpaul.fr/game/energy''],
              Inr (Some \<lparr>timestamp = ''2025-01-01T12:00:00'', gs_status_code = 200,
                         gs_url = ''https://cgj.bpaul.fr/game/energy'',
                         next_click_in_seconds = None\<rparr>))"
    by (simp add: accepted_prologue_def state_ready)
  have st: "start_time accepted_prologue = 100" "click_count example_bot = 0"
    "bot_email example_bot = ''player@example.com''"
    by (simp_all add: accepted_prologue_def example_bot_def)
  show ?thesis
    apply (simp only: run_def example_session_fields(3)[symmetric] Let_def)
    apply (simp add: l g st state_report_def aexit_def example_session_fields(1,2)
        split: option.splits prod.splits del: loop.simps)
    done
qed

lemma run_rejected:
  "run lib example_bot a rejected_prologue ticks e =
     Some ([Print LoggingIn,
            HttpGet ''https://cgj.bpaul.fr/security/login'',
            HttpPost ''https://cgj.bpaul.fr/security/login#''
              [(''_username'', ''player@example.com''), (''_password'', ''secret''),
               (''_remember_me'', ''on'')],
            Print FailedToLoginAborting, Aclose],
           None, example_bot)"
proof -
  have l: "login example_session (login_page rejected_prologue) (login_landing rejected_prologue)
     = ([HttpGet ''https://cgj.bpaul.fr/security/login'',
         HttpPost ''https://cgj.bpaul.fr/security/login#''
           [(''_username'', ''player@example.com''), (''_password'', ''secret''),
            (''_remember_me'', ''on'')]],
        Inr False)"
    by (simp add: rejected_prologue_def login_rejected)
  show ?thesis
    apply (simp only: run_def example_session_fields(3)[symmetric] Let_def)
    apply (simp add: l aexit_def example_session_fields(1,2))
    done
qed

lemma loop_cooldown_once:
  "loop example_stdlib example_session
     \<lparr>click_interval = Some 2, max_clicks = Some 1, duration = None\<rparr> 100 0
     [cooldown_tick 101 (Inr game_page_ready)]
   = Some ([HttpGet ''https://cgj.bpaul.fr/game/energy'', Print (HumanizerDelay (8/5)),
            Print (ServerCooldown (33/5)), Sleep (33/5),
            HttpPost ''https://cgj.bpaul.fr/game/energy/action'' [],
            Print (ReachedMaxClicks 1)],
           None, 1)"
  by (simp add: count_limit_def duration_limit_def act_cooldown_ok)

lemma loop_two_clicks:
  "loop lib example_session \<lparr>click_interval = None, max_clicks = Some 2, duration = None\<rparr>
     100 0 [ready_tick 101 (Inr game_page_ready), ready_tick 103 (Inr game_page_ready)]
   = Some ([HttpGet ''https://cgj.bpaul.fr/game/energy'', Print (HumanizerDelay (8/5)),
            Print (ServerCooldown (8/5)), Sleep (8/5),
            HttpPost ''https://cgj.bpaul.fr/game/energy/action'' [],
            HttpGet ''https://cgj.bpaul.fr/game/energy'', Print (HumanizerDelay (8/5)),
            Print (ServerCooldown (8/5)), Sleep (8/5),
            HttpPost ''https://cgj.bpaul.fr/game/energy/action'' [],
            Print (ReachedMaxClicks 2)],
           None, 2)"
  by (simp add: count_limit_def duration_limit_def act_ready_ok)

lemma loop_duration_first:
  "loop lib example_session \<lparr>click_interval = None, max_clicks = Some 3, duration = Some 5\<rparr>
     100 0 [ready_tick 101 (Inr game_page_ready), ready_tick 106 (Inr game_page_ready),
            ready_tick 107 (Inr game_page_ready)]
   = Some ([HttpGet ''https://cgj.bpaul.fr/game/energy'', Print (HumanizerDelay (8/5)),
            Print (ServerCooldown (8/5)), Sleep (8/5),
            HttpPost ''https://cgj.bpaul.fr/game/energy/action'' [],
            Print (ReachedDuration 5)],
           None, 1)"
  by (simp add: count_limit_def duration_limit_def act_ready_ok now_ready_tick)

lemma loop_interrupted:
  "loop lib example_session no_limits 100 0
     [(ready_tick 101 (Inr game_page_ready))\<lparr>sleep_raises := Some KeyboardInterrupt\<rparr>]
   = Some ([HttpGet ''https://cgj.bpaul.fr/game/energy'', Print (HumanizerDelay (8/5)),
            Print (ServerCooldown (8/5)), Sleep (8/5)],
           Some KeyboardInterrupt, 0)"
  by (simp add: count_limit_def duration_limit_def no_limits_def act_def ready_tick_def
      state_ready humaniser_at_zero wait_time_def floor_wait_def server_wait_def Let_def)

section \<open>The wait before a click\<close>

lemma act_schedule:
  assumes g: "get_game_state lib s (wall t) (state_answer t) = (evs1, Inr state)"
    and a: "act lib s interval cnt t = (evs, res)"
  shows "(\<exists>e. sleep_raises t = Some e \<and> 0 < wait_time interval state (humaniser (sample t))
            \<and> res = Inl e
            \<and> schedule s evs = [Waited (wait_time interval state (humaniser (sample t)))])
       \<or> (res = snd (perform_click s cnt (click_answer t))
          \<and> schedule s evs =
               (if 0 < wait_time interval state (humaniser (sample t))
                then [Waited (wait_time interval state (humaniser (sample t)))] else [])
               @ [Clicked])"
proof -
  obtain evs3 r3 where c: "perform_click s cnt (click_answer t) = (evs3, r3)"
    by (cases "perform_click s cnt (click_answer t)")
  have cl: "client s" using g by (rule get_game_state_client)
  have s1: "schedule s evs1 = []" using g by (rule schedule_get_game_state)
  have s3: "schedule s evs3 = [Clicked]" using cl c by (rule schedule_perform_click)
  show ?thesis
    using a
    by (cases "sleep_raises t")
       (auto simp: act_def g c s1 s3 schedule_append Let_def split: if_splits)
qed

lemma loop_schedule_step:
  assumes "count_limit a cnt = None" and "duration_limit a start (now t) = None"
    and g: "get_game_state lib s (wall t) (state_answer t) = (evs1, Inr state)"
    and l: "loop lib s a start cnt (t # ts) = Some (evs, r, c)"
  shows "(\<exists>e. sleep_raises t = Some e
            \<and> 0 < wait_time (click_interval a) state (humaniser (sample t))
            \<and> r = Some e \<and> c = cnt
            \<and> schedule s evs
                = [Waited (wait_time (click_interval a) state (humaniser (sample t)))])
       \<or> (\<exists>e. r = Some e \<and> c = cnt
            \<and> schedule s evs =
                 (if 0 < wait_time (click_interval a) state (humaniser (sample t))
                  then [Waited (wait_time (click_interval a) state (humaniser (sample t)))]
                  else [])
                 @ [Clicked])
       \<or> (\<exists>cnt' evs'. loop lib s a start cnt' ts = Some (evs', r, c)
            \<and> schedule s evs =
                 (if 0 < wait_time (click_interval a) state (humaniser (sample t))
                  then [Waited (wait_time (click_interval a) state (humaniser (sample t)))]
                  else [])
                 @ Clicked # schedule s evs')"
proof -
  obtain evi res where a: "act lib s (click_interval a) cnt t = (evi, res)"
    by (cases "act lib s (click_interval a) cnt t")
  note st = act_schedule[OF g a]
  show ?thesis
  proof (cases res)
    case (Inl e)
    then have "evs = evi" "r = Some e" "c = cnt" using l assms(1,2) a by simp_all
    then show ?thesis using st Inl by auto
  next
    case (Inr cnt')
    then obtain evs' where l': "loop lib s a start cnt' ts = Some (evs', r, c)"
      and e: "evs = evi @ evs'"
      using l assms(1,2) a by (auto split: option.splits)
    have "schedule s evi =
            (if 0 < wait_time (click_interval a) state (humaniser (sample t))
             then [Waited (wait_time (click_interval a) state (humaniser (sample t)))]
             else [])
            @ [Clicked]"
      using st Inr by auto
    then have "schedule s evs =
            (if 0 < wait_time (click_interval a) state (humaniser (sample t))
             then [Waited (wait_time (click_interval a) state (humaniser (sample t)))]
             else [])
            @ Clicked # schedule s evs'"
      using e by (simp add: schedule_append)
    then show ?thesis using l' by blast
  qed
qed

lemma run_schedule:
  assumes s: "s = aenter (bot_email self) (bot_password self) (bot_base_url self)"
    and lg: "login s (login_page p) (login_landing p) = (evl, Inr True)"
    and g: "get_game_state lib s (first_wall p) (first_state p) = (evg, Inr initial)"
  shows "map_option (\<lambda>(evs, r, b). schedule s evs) (run lib self a p ticks e)
       = map_option (\<lambda>(evs, r, c). schedule s evs)
           (loop lib s a (start_time p) (click_count self) ticks)"
proof (cases "loop lib s a (start_time p) (click_count self) ticks")
  case None
  then show ?thesis using lg g by (simp add: run_def s[symmetric])
next
  case (Some res)
  obtain evs r c where res: "res = (evs, r, c)" by (cases res)
  obtain evf r' where f: "finish r c (e - start_time p) = (evf, r')"
    by (cases "finish r c (e - start_time p)")
  show ?thesis
    using lg g Some res f schedule_login[OF lg] schedule_get_game_state[OF g]
      schedule_finish[OF f]
    by (simp add: run_def s[symmetric] schedule_append schedule_misc)
qed

text \<open>
  C1. The waits and the clicks of a run are those of its loop, and the loop is given the
  arguments of the run: after an accepted login and a fetched first state, the schedule
  of \<open>run\<close> is the schedule of \<open>loop\<close> with the configured interval. In every pass
  of the loop that no limit stops and in which the state is fetched, the program waits
  before it clicks: once, for \<open>wait_time\<close> of the configured interval, the fetched state
  and the jitter, when that is positive. Then it clicks, and the loop goes on with the
  remaining ticks (or the click raises); a wait that is interrupted ends the loop
  without a click. \<open>wait_time\<close> is the server's wait plus the jitter, raised to the
  configured interval when that interval is present and positive; the server's wait is
  the larger of zero and the cooldown of the fetched state, and zero when the state or
  its cooldown is absent. With a cooldown of 5 and an interval of 2 the wait is
  \<open>max (5 + j) 2\<close> for every jitter \<open>j\<close>; with no cooldown, or a cooldown of 0, an
  interval of 10 and no jitter it is 10.
\<close>

theorem wait_before_each_click:
  "(s = aenter (bot_email self) (bot_password self) (bot_base_url self)
      \<and> login s (login_page p) (login_landing p) = (evl, Inr True)
      \<and> get_game_state lib s (first_wall p) (first_state p) = (evg, Inr initial)
    \<longrightarrow> map_option (\<lambda>(evs, r, b). schedule s evs) (run lib self a p ticks e)
        = map_option (\<lambda>(evs, r, c). schedule s evs)
            (loop lib s a (start_time p) (click_count self) ticks))
   \<and> (count_limit a cnt = None \<and> duration_limit a start (now t) = None
      \<and> get_game_state lib s (wall t) (state_answer t) = (evs1, Inr state)
      \<and> loop lib s a start cnt (t # ts) = Some (evs, r, c)
    \<longrightarrow> (\<exists>x. sleep_raises t = Some x
            \<and> 0 < wait_time (click_interval a) state (humaniser (sample t))
            \<and> r = Some x \<and> c = cnt
            \<and> schedule s evs
                = [Waited (wait_time (click_interval a) state (humaniser (sample t)))])
       \<or> (\<exists>x. r = Some x \<and> c = cnt
            \<and> schedule s evs =
                 (if 0 < wait_time (click_interval a) state (humaniser (sample t))
                  then [Waited (wait_time (click_interval a) state (humaniser (sample t)))]
                  else [])
                 @ [Clicked])
       \<or> (\<exists>cnt' evs'. loop lib s a start cnt' ts = Some (evs', r, c)
            \<and> schedule s evs =
                 (if 0 < wait_time (click_interval a) state (humaniser (sample t))
                  then [Waited (wait_time (click_interval a) state (humaniser (sample t)))]
                  else [])
                 @ Clicked # schedule s evs'))
   \<and> wait_time interval state j =
     (let serverWait =
            (case state of
               None \<Rightarrow> 0
             | Some st \<Rightarrow>
                 (case next_click_in_seconds st of None \<Rightarrow> 0 | Some v \<Rightarrow> max 0 v))
      in case interval of
           None \<Rightarrow> serverWait + j
         | Some f \<Rightarrow> if 0 < f then max (serverWait + j) f else serverWait + j)
   \<and> wait_time (Some 2)
        (Some \<lparr>timestamp = w, gs_status_code = k, gs_url = u, next_click_in_seconds = Some 5\<rparr>)
        j = max (5 + j) 2
   \<and> wait_time (Some 10)
        (Some \<lparr>timestamp = w, gs_status_code = k, gs_url = u, next_click_in_seconds = Some 0\<rparr>)
        0 = 10
   \<and> wait_time (Some 10)
        (Some \<lparr>timestamp = w, gs_status_code = k, gs_url = u, next_click_in_seconds = None\<rparr>)
        0 = 10
   \<and> wait_time (Some 10) None 0 = 10"
proof -
  have formula: "wait_time interval state j =
     (let serverWait =
            (case state of
               None \<Rightarrow> 0
             | Some st \<Rightarrow>
                 (case next_click_in_seconds st of None \<Rightarrow> 0 | Some v \<Rightarrow> max 0 v))
      in case interval of
           None \<Rightarrow> serverWait + j
         | Some f \<Rightarrow> if 0 < f then max (serverWait + j) f else serverWait + j)"
    by (simp add: wait_time_def floor_wait_def server_wait_def split: option.splits)
  show ?thesis
    apply (intro conjI impI)
          apply (elim conjE, erule (2) run_schedule)
         apply (elim conjE, erule (3) loop_schedule_step)
        apply (rule formula)
       apply (simp_all add: wait_time_def floor_wait_def server_wait_def)
    done
qed

theorem wait_before_each_click_witness:
  "login example_session (login_page accepted_prologue) (login_landing accepted_prologue)
     = ([HttpGet ''https://cgj.bpaul.fr/security/login'',
         HttpPost ''https://cgj.bpaul.fr/security/login#''
           [(''_username'', ''player@example.com''), (''_password'', ''secret''),
            (''_remember_me'', ''on'')]],
        Inr True)
   \<and> map_option (\<lambda>(evs, r, b). schedule example_session evs)
        (run example_stdlib example_bot
           \<lparr>click_interval = Some 2, max_clicks = Some 1, duration = None\<rparr>
           accepted_prologue [cooldown_tick 101 (Inr game_page_ready)] 110)
      = Some [Waited (33/5), Clicked]
   \<and> wait_time (Some 2)
        (Some \<lparr>timestamp = ''2025-01-01T12:00:00'', gs_status_code = 200,
               gs_url = ''https://cgj.bpaul.fr/game/energy'',
               next_click_in_seconds = Some 5\<rparr>)
        (humaniser 0) = 33/5"
proof -
  have s: "example_session
             = aenter (bot_email example_bot) (bot_password example_bot) (bot_base_url example_bot)"
    by (simp add: example_session_def example_bot_def)
  have l: "login example_session (login_page accepted_prologue) (login_landing accepted_prologue)
     = ([HttpGet ''https://cgj.bpaul.fr/security/login'',
         HttpPost ''https://cgj.bpaul.fr/security/login#''
           [(''_username'', ''player@example.com''), (''_password'', ''secret''),
            (''_remember_me'', ''on'')]],
        Inr True)"
    by (simp add: accepted_prologue_def login_accepted)
  have g: "get_game_state example_stdlib example_session (first_wall accepted_prologue)
             (first_state accepted_prologue)
           = ([HttpGet ''https://cgj.bpaul.fr/game/energy''],
              Inr (Some \<lparr>timestamp = ''2025-01-01T12:00:00'', gs_status_code = 200,
                         gs_url = ''https://cgj.bpaul.fr/game/energy'',
                         next_click_in_seconds = None\<rparr>))"
    by (simp add: accepted_prologue_def state_ready)
  have st: "start_time accepted_prologue = 100" "click_count example_bot = 0"
    by (simp_all add: accepted_prologue_def example_bot_def)
  note inst = wait_before_each_click[where s = example_session and self = example_bot
      and p = accepted_prologue and lib = example_stdlib
      and a = "\<lparr>click_interval = Some 2, max_clicks = Some 1, duration = None\<rparr>"
      and ticks = "[cooldown_tick 101 (Inr game_page_ready)]" and e = 110]
  have r: "map_option (\<lambda>(evs, r, b). schedule example_session evs)
        (run example_stdlib example_bot
           \<lparr>click_interval = Some 2, max_clicks = Some 1, duration = None\<rparr>
           accepted_prologue [cooldown_tick 101 (Inr game_page_ready)] 110)
      = map_option (\<lambda>(evs, r, c). schedule example_session evs)
          (loop example_stdlib example_session
             \<lparr>click_interval = Some 2, max_clicks = Some 1, duration = None\<rparr>
             (start_time accepted_prologue) (click_count example_bot)
             [cooldown_tick 101 (Inr game_page_ready)])"
    using inst[THEN conjunct1] s l g by blast
  have w: "wait_time (Some 2)
        (Some \<lparr>timestamp = ''2025-01-01T12:00:00'', gs_status_code = 200,
               gs_url = ''https://cgj.bpaul.fr/game/energy'',
               next_click_in_seconds = Some 5\<rparr>)
        (humaniser 0) = 33/5"
    using inst[THEN conjunct2, THEN conjunct2, THEN conjunct2, THEN conjunct1,
        of "''2025-01-01T12:00:00''" 200 "''https://cgj.bpaul.fr/game/energy''" "humaniser 0"]
    by (simp add: humaniser_at_zero)
  have b: "base_url example_session = ''https://cgj.bpaul.fr''"
    by (simp add: example_session_def aenter_def)
  have "map_option (\<lambda>(evs, r, b). schedule example_session evs)
        (run example_stdlib example_bot
           \<lparr>click_interval = Some 2, max_clicks = Some 1, duration = None\<rparr>
           accepted_prologue [cooldown_tick 101 (Inr game_page_ready)] 110)
      = Some [Waited (33/5), Clicked]"
    by (simp add: r st loop_cooldown_once b del: loop.simps)
  then show ?thesis using l w by simp
qed

section \<open>Limits of zero\<close>

lemma loop_args:
  "click_interval a = click_interval a' \<Longrightarrow> count_limit a = count_limit a' \<Longrightarrow>
   duration_limit a = duration_limit a' \<Longrightarrow>
   loop lib s a start cnt ticks = loop lib s a' start cnt ticks"
  by (induction ticks arbitrary: cnt) (auto split: option.splits sum.splits prod.splits)

lemma run_args:
  assumes "click_interval a = click_interval a'" "count_limit a = count_limit a'"
    "duration_limit a = duration_limit a'"
  shows "run lib self a p ticks e = run lib self a' p ticks e"
  by (auto simp: run_def Let_def starting_def assms(1) loop_args[OF assms]
      split: prod.splits sum.splits option.splits)

text \<open>
  C10. A run with \<^verbatim>\<open>max_clicks = 0\<close> is, event for event and in its result, the run
  with \<^verbatim>\<open>max_clicks = None\<close> on the same inputs, and likewise for \<^verbatim>\<open>duration = 0\<close>
  and \<^verbatim>\<open>duration = None\<close>: a limit of zero is falsy, so its stop condition holds
  for no click count and at no time.
\<close>

theorem zero_limits_are_absent:
  "run lib self (a\<lparr>max_clicks := Some 0\<rparr>) p ticks e
     = run lib self (a\<lparr>max_clicks := None\<rparr>) p ticks e
   \<and> run lib self (a\<lparr>duration := Some 0\<rparr>) p ticks e
     = run lib self (a\<lparr>duration := None\<rparr>) p ticks e
   \<and> count_limit (a\<lparr>max_clicks := Some 0\<rparr>) cnt = None
   \<and> duration_limit (a\<lparr>duration := Some 0\<rparr>) start t = None"
proof (intro conjI)
  show "run lib self (a\<lparr>max_clicks := Some 0\<rparr>) p ticks e
          = run lib self (a\<lparr>max_clicks := None\<rparr>) p ticks e"
    by (rule run_args) (simp_all add: count_limit_def duration_limit_def fun_eq_iff)
  show "run lib self (a\<lparr>duration := Some 0\<rparr>) p ticks e
          = run lib self (a\<lparr>duration := None\<rparr>) p ticks e"
    by (rule run_args) (simp_all add: count_limit_def duration_limit_def fun_eq_iff)
qed (simp_all add: count_limit_def duration_limit_def)

section \<open>A failed login\<close>

lemma login_events:
  "client s \<Longrightarrow> login s page landing = (evs, r) \<Longrightarrow>
     sleeps evs = [] \<and> click_requests s evs = 0 \<and> login_requests s evs = 1 \<and> reports evs = []"
  by (auto simp: login_def login_try_def Let_def click_requests_def login_requests_def
        login_data_def
      split: sum.splits prod.splits if_splits)

text \<open>
  C6. When \<^verbatim>\<open>session.login()\<close> returns \<^verbatim>\<open>False\<close>, the run returns at once,
  whatever the limits and whatever the world would have supplied to the loop: its events
  are those of the one call of \<^verbatim>\<open>login\<close>, the message that the login failed, and the
  release of the transport. No click is issued, the login page is requested once, nothing
  is slept, and the bot is as it was.
\<close>

theorem failed_login_stops_run:
  assumes "s = aenter (bot_email self) (bot_password self) (bot_base_url self)"
    and "login s (login_page p) (login_landing p) = (evl, Inr False)"
  shows "run lib self a p ticks e
           = Some (Print LoggingIn # evl @ [Print FailedToLoginAborting, Aclose], None, self)
         \<and> click_requests s (Print LoggingIn # evl @ [Print FailedToLoginAborting, Aclose]) = 0
         \<and> login_requests s (Print LoggingIn # evl @ [Print FailedToLoginAborting, Aclose]) = 1
         \<and> sleeps (Print LoggingIn # evl @ [Print FailedToLoginAborting, Aclose]) = []"
proof -
  have c: "client s" by (simp add: assms(1) aenter_def)
  note le = login_events[OF c assms(2)]
  have "run lib self a p ticks e
           = Some (Print LoggingIn # evl @ [Print FailedToLoginAborting, Aclose], None, self)"
    using assms c by (simp add: run_def aexit_def)
  moreover have
    "click_requests s (Print LoggingIn # evl @ [Print FailedToLoginAborting, Aclose]) = 0"
    using le by (simp add: click_requests_def)
  moreover have
    "login_requests s (Print LoggingIn # evl @ [Print FailedToLoginAborting, Aclose]) = 1"
    using le by (simp add: login_requests_def)
  moreover have "sleeps (Print LoggingIn # evl @ [Print FailedToLoginAborting, Aclose]) = []"
    using le by (simp add: sleeps_append)
  ultimately show ?thesis by simp
qed

theorem failed_login_stops_run_witness:
  "login example_session (login_page rejected_prologue) (login_landing rejected_prologue) =
     ([HttpGet ''https://cgj.bpaul.fr/security/login'',
       HttpPost ''https://cgj.bpaul.fr/security/login#''
         [(''_username'', ''player@example.com''), (''_password'', ''secret''),
          (''_remember_me'', ''on'')]],
      Inr False)
   \<and> run example_stdlib example_bot \<lparr>click_interval = Some 0.5, max_clicks = Some 100, duration = None\<rparr>
         rejected_prologue [ready_tick 101 (Inr game_page_ready)] 102 =
       Some ([Print LoggingIn,
              HttpGet ''https://cgj.bpaul.fr/security/login'',
              HttpPost ''https://cgj.bpaul.fr/security/login#''
                [(''_username'', ''player@example.com''), (''_password'', ''secret''),
                 (''_remember_me'', ''on'')],
              Print FailedToLoginAborting, Aclose],
             None, example_bot)"
proof -
  have l: "login example_session (login_page rejected_prologue) (login_landing rejected_prologue) =
     ([HttpGet ''https://cgj.bpaul.fr/security/login'',
       HttpPost ''https://cgj.bpaul.fr/security/login#''
         [(''_username'', ''player@example.com''), (''_password'', ''secret''),
          (''_remember_me'', ''on'')]],
      Inr False)"
    by (simp add: rejected_prologue_def login_rejected)
  have s: "example_session
             = aenter (bot_email example_bot) (bot_password example_bot) (bot_base_url example_bot)"
    by (simp add: example_session_def example_bot_def)
  show ?thesis
    using failed_login_stops_run[OF s l, of example_stdlib
        "\<lparr>click_interval = Some 0.5, max_clicks = Some 100, duration = None\<rparr>"
        "[ready_tick 101 (Inr game_page_ready)]" 102] l
    by simp
qed

section \<open>The cooldown extractor on a counter element\<close>

text \<open>
  C2, as the code has it. When the pattern finds no counter element in the body, the
  result is a zero duration. When it finds one whose decoded value (\<^verbatim>\<open>&quot;\<close>
  replaced by the double quote, newlines removed) \<^verbatim>\<open>json.loads\<close> parses as a
  non-empty array, whose first event is an object with non-empty strings under
  \<^verbatim>\<open>start-date\<close> and \<^verbatim>\<open>end-date\<close>, and \<^verbatim>\<open>fromisoformat\<close> parses both as
  timezone-aware timestamps (or both as naive ones), the result is end minus start when
  that is positive and zero otherwise. Nothing is printed in either case.
\<close>

theorem extract_well_formed:
  "(re_search counter_lit1 counter_lit2 html = None
      \<longrightarrow> extract_next_click_time lib html = ([], Inr 0))
   \<and> (re_search counter_lit1 counter_lit2 html = Some g
        \<and> json_loads lib (replace [newline] [] (replace ''&quot;'' [dquote] g))
            = Inr (PList (PDict ev # rest))
        \<and> map_of ev ''start-date'' = Some (PStr s1) \<and> s1 \<noteq> []
        \<and> map_of ev ''end-date'' = Some (PStr s2) \<and> s2 \<noteq> []
        \<and> (fromisoformat lib s1 = Inr (Aware a) \<and> fromisoformat lib s2 = Inr (Aware b)
             \<or> fromisoformat lib s1 = Inr (Naive a) \<and> fromisoformat lib s2 = Inr (Naive b))
      \<longrightarrow> extract_next_click_time lib html = ([], Inr (if 0 < b - a then b - a else 0)))"
  by (auto simp: extract_next_click_time_def parse_counter_def event_timeout_def
        total_seconds_def Let_def)

theorem extract_well_formed_witness:
  "re_search counter_lit1 counter_lit2 ''<html></html>'' = None
   \<and> extract_next_click_time example_stdlib ''<html></html>'' = ([], Inr 0)
   \<and> re_search counter_lit1 counter_lit2 (counter_element five_seconds_payload)
       = Some five_seconds_payload
   \<and> extract_next_click_time example_stdlib (counter_element five_seconds_payload)
       = ([], Inr 5000000)"
proof -
  have absent: "extract_next_click_time example_stdlib ''<html></html>'' = ([], Inr 0)"
    using extract_well_formed[of "''<html></html>''" example_stdlib] search_no_counter
    by blast
  have present:
    "extract_next_click_time example_stdlib (counter_element five_seconds_payload)
       = ([], Inr (if (0::int) < 1735732805000000 - 1735732800000000
                   then 1735732805000000 - 1735732800000000 else 0))"
    by (rule extract_well_formed[THEN conjunct2, rule_format,
          of _ five_seconds_payload _
            "[(''start-date'', PStr ''2025-01-01T12:00:00+00:00''),
              (''end-date'', PStr ''2025-01-01T12:00:05+00:00'')]"
            "[]" "''2025-01-01T12:00:00+00:00''" "''2025-01-01T12:00:05+00:00''"])
       (simp add: search_five_seconds decode_five_seconds example_stdlib_def
          example_json_def example_fromisoformat_def)
  show ?thesis
    using absent present search_no_counter search_five_seconds
    by (intro conjI) simp_all
qed

text \<open>
  C2 as stated fails when one timestamp is naive and the other timezone-aware. Both
  \<^verbatim>\<open>2025-01-01T12:00:00\<close> and \<^verbatim>\<open>2025-01-01T12:00:05+00:00\<close> are parseable
  ISO-8601; \<^verbatim>\<open>end - start\<close> raises \<^verbatim>\<open>TypeError\<close>, which the handler does not
  catch, so no duration is returned.
\<close>

theorem mixed_timestamps_raise:
  \<open>re_search counter_lit1 counter_lit2 (counter_element mixed_payload) = Some mixed_payload
   \<and> json_loads example_stdlib (replace [newline] [] (replace ''&quot;'' [dquote] mixed_payload))
       = Inr (PList [PDict [(''start-date'', PStr ''2025-01-01T12:00:00''),
                            (''end-date'', PStr ''2025-01-01T12:00:05+00:00'')]])
   \<and> fromisoformat example_stdlib ''2025-01-01T12:00:00'' = Inr (Naive 1735732800000000)
   \<and> fromisoformat example_stdlib ''2025-01-01T12:00:05+00:00'' = Inr (Aware 1735732805000000)
   \<and> extract_next_click_time example_stdlib (counter_element mixed_payload)
       = ([], Inl TypeError)\<close>
  by (simp add: extract_next_click_time_def search_mixed parse_counter_def decode_mixed
      example_stdlib_def example_json_def example_fromisoformat_def event_timeout_def
      caught_by_extract_def)

text \<open>
  C3, at the body \<^verbatim>\<open><div data-controller="counter" data-counter-events-value="[1]"></div>\<close>:
  \<^verbatim>\<open>json.loads\<close> returns the list \<^verbatim>\<open>[1]\<close>, \<^verbatim>\<open>events[0].get\<close> raises
  \<^verbatim>\<open>AttributeError\<close>, the handler does not catch it, and the exception reaches the
  caller of \<^verbatim>\<open>extract_next_click_time\<close>.
\<close>

theorem unexpected_shape_escapes:
  "json_loads lib ''[1]'' = Inr (PList [PInt 1])
     \<Longrightarrow> extract_next_click_time lib (counter_element number_payload) = ([], Inl AttributeError)"
  by (simp add: extract_next_click_time_def search_number parse_counter_def decode_number
      event_timeout_def caught_by_extract_def)

theorem unexpected_shape_escapes_witness:
  "json_loads example_stdlib ''[1]'' = Inr (PList [PInt 1])
   \<and> extract_next_click_time example_stdlib (counter_element number_payload)
       = ([], Inl AttributeError)"
  using unexpected_shape_escapes[of example_stdlib]
  by (simp add: example_stdlib_def example_json_def)

section \<open>Failures of the transport\<close>

text \<open>
  C4, at a response with status 500: \<^verbatim>\<open>raise_for_status\<close> raises
  \<^verbatim>\<open>HTTPStatusError\<close>, which \<^verbatim>\<open>except httpx.RequestError\<close> does not catch, so each
  of \<^verbatim>\<open>login\<close>, \<^verbatim>\<open>click\<close> and \<^verbatim>\<open>get_game_state\<close> raises it to its caller. A
  \<^verbatim>\<open>RequestError\<close> raised by the transport is caught, and the method returns
  \<^verbatim>\<open>False\<close> (\<^verbatim>\<open>None\<close> for \<^verbatim>\<open>get_game_state\<close>).
\<close>

theorem http_error_status_escapes:
  "login example_session (Inr server_error) landing
     = ([HttpGet ''https://cgj.bpaul.fr/security/login''], Inl HTTPStatusError)
   \<and> click example_session (Inr server_error)
     = ([HttpPost ''https://cgj.bpaul.fr/game/energy/action'' []], Inl HTTPStatusError)
   \<and> get_game_state lib example_session w (Inr server_error)
     = ([HttpGet ''https://cgj.bpaul.fr/game/energy''], Inl HTTPStatusError)
   \<and> login example_session (Inl RequestError) landing
     = ([HttpGet ''https://cgj.bpaul.fr/security/login'', Print (LoginFailed RequestError)],
        Inr False)
   \<and> click example_session (Inl RequestError)
     = ([HttpPost ''https://cgj.bpaul.fr/game/energy/action'' [],
         Print (ClickActionFailed RequestError)],
        Inr False)
   \<and> get_game_state lib example_session w (Inl RequestError)
     = ([HttpGet ''https://cgj.bpaul.fr/game/energy'',
         Print (FailedToFetchGameState RequestError)],
        Inr None)"
  by (simp add: login_def login_try_def click_def click_try_def get_game_state_def
      get_game_state_try_def example_session_def aenter_def server_error_def
      raise_for_status_def caught_by_session_def)

section \<open>The report at the end of a run\<close>

text \<open>
  C5, as the code has it. A run that gets past the login and the first fetch of the state
  reports once: whenever its loop ends, by a limit (\<open>r' = None\<close>), by an interrupt or by
  any other exception, the run prints the cumulative click count and the elapsed time
  exactly once, as its last line before the transport is released, and then returns (or
  lets the exception go on, unless it is \<^verbatim>\<open>KeyboardInterrupt\<close>). A run whose login
  returns \<^verbatim>\<open>False\<close>, whose login raises, or whose first fetch raises, ends without
  that report.
\<close>

theorem report_after_the_loop:
  "(s = aenter (bot_email self) (bot_password self) (bot_base_url self)
      \<and> login s (login_page p) (login_landing p) = (evl, Inr True)
      \<and> get_game_state lib s (first_wall p) (first_state p) = (evg, Inr initial)
      \<and> loop lib s a (start_time p) (click_count self) ticks = Some (evs', r', c)
    \<longrightarrow> (\<exists>pre. run lib self a p ticks e
                 = Some (pre @ [Print (BotFinished c (e - start_time p)), Aclose],
                         if r' = Some KeyboardInterrupt then None else r',
                         self\<lparr>click_count := c\<rparr>)
              \<and> reports (pre @ [Print (BotFinished c (e - start_time p)), Aclose])
                  = [(c, e - start_time p)]))
   \<and> (s = aenter (bot_email self) (bot_password self) (bot_base_url self)
      \<and> login s (login_page p) (login_landing p) = (evl, Inr False)
    \<longrightarrow> (\<exists>evs. run lib self a p ticks e = Some (evs, None, self) \<and> reports evs = []))
   \<and> (s = aenter (bot_email self) (bot_password self) (bot_base_url self)
      \<and> login s (login_page p) (login_landing p) = (evl, Inl x)
    \<longrightarrow> (\<exists>evs. run lib self a p ticks e = Some (evs, Some x, self) \<and> reports evs = []))
   \<and> (s = aenter (bot_email self) (bot_password self) (bot_base_url self)
      \<and> login s (login_page p) (login_landing p) = (evl, Inr True)
      \<and> get_game_state lib s (first_wall p) (first_state p) = (evg, Inl x)
    \<longrightarrow> (\<exists>evs. run lib self a p ticks e = Some (evs, Some x, self) \<and> reports evs = []))"
proof (intro conjI impI; elim conjE)
  assume s: "s = aenter (bot_email self) (bot_password self) (bot_base_url self)"
    and lg: "login s (login_page p) (login_landing p) = (evl, Inr True)"
    and g: "get_game_state lib s (first_wall p) (first_state p) = (evg, Inr initial)"
    and l: "loop lib s a (start_time p) (click_count self) ticks = Some (evs', r', c)"
  have cl: "client s" by (simp add: s aenter_def)
  define pre where "pre = Print LoggingIn # evl @ [Print (LoginSuccessful (bot_email self))]
      @ evg @ state_report initial @ [starting a] @ evs'
      @ (if r' = Some KeyboardInterrupt then [Print BotInterrupted] else [])"
  have "run lib self a p ticks e
          = Some (pre @ [Print (BotFinished c (e - start_time p)), Aclose],
                  if r' = Some KeyboardInterrupt then None else r',
                  self\<lparr>click_count := c\<rparr>)"
    using lg g l cl by (simp add: run_def s[symmetric] finish_shape aexit_def pre_def)
  moreover have "reports (pre @ [Print (BotFinished c (e - start_time p)), Aclose])
                  = [(c, e - start_time p)]"
    using reports_login[OF lg] reports_get_game_state[OF g] reports_loop[OF l]
    by (simp add: pre_def reports_append reports_misc)
  ultimately show "\<exists>pre. run lib self a p ticks e
                 = Some (pre @ [Print (BotFinished c (e - start_time p)), Aclose],
                         if r' = Some KeyboardInterrupt then None else r',
                         self\<lparr>click_count := c\<rparr>)
              \<and> reports (pre @ [Print (BotFinished c (e - start_time p)), Aclose])
                  = [(c, e - start_time p)]"
    by blast
next
  assume s: "s = aenter (bot_email self) (bot_password self) (bot_base_url self)"
    and lg: "login s (login_page p) (login_landing p) = (evl, Inr False)"
  show "\<exists>evs. run lib self a p ticks e = Some (evs, None, self) \<and> reports evs = []"
    using lg reports_login[OF lg]
    by (simp add: run_def s[symmetric] reports_append reports_misc)
next
  assume s: "s = aenter (bot_email self) (bot_password self) (bot_base_url self)"
    and lg: "login s (login_page p) (login_landing p) = (evl, Inl x)"
  show "\<exists>evs. run lib self a p ticks e = Some (evs, Some x, self) \<and> reports evs = []"
    using lg reports_login[OF lg]
    by (simp add: run_def s[symmetric] reports_append reports_misc)
next
  assume s: "s = aenter (bot_email self) (bot_password self) (bot_base_url self)"
    and lg: "login s (login_page p) (login_landing p) = (evl, Inr True)"
    and g: "get_game_state lib s (first_wall p) (first_state p) = (evg, Inl x)"
  show "\<exists>evs. run lib self a p ticks e = Some (evs, Some x, self) \<and> reports evs = []"
    using lg g reports_login[OF lg] reports_get_game_state[OF g]
    by (simp add: run_def s[symmetric] reports_append reports_misc)
qed

theorem report_after_the_loop_witness:
  "(\<exists>pre. run example_stdlib example_bot
             \<lparr>click_interval = None, max_clicks = Some 2, duration = None\<rparr>
             accepted_prologue
             [ready_tick 101 (Inr game_page_ready), ready_tick 103 (Inr game_page_ready)] 105
           = Some (pre @ [Print (BotFinished 2 5), Aclose], None,
                   example_bot\<lparr>click_count := 2\<rparr>)
         \<and> reports (pre @ [Print (BotFinished 2 5), Aclose]) = [(2, 5)])
   \<and> (\<exists>pre. run example_stdlib example_bot no_limits accepted_prologue
             [(ready_tick 101 (Inr game_page_ready))\<lparr>sleep_raises := Some KeyboardInterrupt\<rparr>]
             103
           = Some (pre @ [Print (BotFinished 0 3), Aclose], None,
                   example_bot\<lparr>click_count := 0\<rparr>)
         \<and> reports (pre @ [Print (BotFinished 0 3), Aclose]) = [(0, 3)])"
proof -
  have two: "\<exists>pre. run example_stdlib example_bot
             \<lparr>click_interval = None, max_clicks = Some 2, duration = None\<rparr>
             accepted_prologue
             [ready_tick 101 (Inr game_page_ready), ready_tick 103 (Inr game_page_ready)] 105
           = Some (pre @ [Print (BotFinished 2 (105 - start_time accepted_prologue)), Aclose],
                   if None = Some KeyboardInterrupt then None else None,
                   example_bot\<lparr>click_count := 2\<rparr>)
         \<and> reports (pre @ [Print (BotFinished 2 (105 - start_time accepted_prologue)), Aclose])
             = [(2, 105 - start_time accepted_prologue)]"
    by (rule report_after_the_loop[THEN conjunct1, rule_format,
          where s = example_session and lib = example_stdlib])
       (intro conjI, rule example_session_fields(3), rule accepted_fields(1),
        rule accepted_fields(2),
        simp only: accepted_fields(3,4) loop_two_clicks)
  have irq: "\<exists>pre. run example_stdlib example_bot no_limits accepted_prologue
             [(ready_tick 101 (Inr game_page_ready))\<lparr>sleep_raises := Some KeyboardInterrupt\<rparr>]
             103
           = Some (pre @ [Print (BotFinished 0 (103 - start_time accepted_prologue)), Aclose],
                   if Some KeyboardInterrupt = Some KeyboardInterrupt then None
                   else Some KeyboardInterrupt,
                   example_bot\<lparr>click_count := 0\<rparr>)
         \<and> reports (pre @ [Print (BotFinished 0 (103 - start_time accepted_prologue)), Aclose])
             = [(0, 103 - start_time accepted_prologue)]"
    by (rule report_after_the_loop[THEN conjunct1, rule_format,
          where s = example_session and lib = example_stdlib])
       (intro conjI, rule example_session_fields(3), rule accepted_fields(1),
        rule accepted_fields(2),
        simp only: accepted_fields(3,4) loop_interrupted)
  show ?thesis using two irq by (simp add: accepted_fields(3))
qed

text \<open>
  C5 as stated fails for a run that halts after a failed login: it prints that the
  login failed and returns, and reports neither a click count nor an elapsed time.
\<close>

theorem failed_login_reports_nothing:
  "run example_stdlib example_bot no_limits rejected_prologue [] 102
     = Some ([Print LoggingIn,
              HttpGet ''https://cgj.bpaul.fr/security/login'',
              HttpPost ''https://cgj.bpaul.fr/security/login#''
                [(''_username'', ''player@example.com''), (''_password'', ''secret''),
                 (''_remember_me'', ''on'')],
              Print FailedToLoginAborting, Aclose],
             None, example_bot)
   \<and> reports [Print LoggingIn,
              HttpGet ''https://cgj.bpaul.fr/security/login'',
              HttpPost ''https://cgj.bpaul.fr/security/login#''
                [(''_username'', ''player@example.com''), (''_password'', ''secret''),
                 (''_remember_me'', ''on'')],
              Print FailedToLoginAborting, Aclose] = []"
  by (simp add: run_rejected)

section \<open>Stopping at the maximum\<close>

lemma act_good:
  assumes g: "get_game_state lib s (wall t) (state_answer t) = (ev1, Inr st)"
    and sl: "sleep_raises t = None"
    and c: "click s (click_answer t) = (evc, Inr True)"
  shows "\<exists>evs. act lib s interval cnt t = (evs, Inr (cnt + 1)) \<and> click_requests s evs = 1"
proof -
  have cl: "client s" using g by (rule get_game_state_client)
  have c1: "click_requests s ev1 = 0" using g by (rule click_requests_get_game_state)
  have c3: "click_requests s evc = 1" using cl c by (rule click_requests_click)
  show ?thesis
    using c1 c3
    by (simp add: act_def g sl c perform_click_def Let_def click_requests_append)
       (simp add: click_requests_def)
qed

lemma loop_until_max:
  assumes m: "max_clicks a = Some n" and n: "0 < n"
  shows "cnt \<le> n \<Longrightarrow> nat (n - cnt) \<le> length ticks \<Longrightarrow>
     (\<forall>t \<in> set (take (nat (n - cnt)) ticks).
         duration_limit a start (now t) = None
         \<and> (\<exists>ev st. get_game_state lib s (wall t) (state_answer t) = (ev, Inr st))
         \<and> sleep_raises t = None
         \<and> (\<exists>ev. click s (click_answer t) = (ev, Inr True))) \<Longrightarrow>
     \<exists>evs. loop lib s a start cnt ticks = Some (evs @ [Print (ReachedMaxClicks n)], None, n)
            \<and> click_requests s evs = nat (n - cnt)"
proof (induction ticks arbitrary: cnt)
  case Nil
  then have "cnt = n" by simp
  then have "loop lib s a start cnt [] = Some ([] @ [Print (ReachedMaxClicks n)], None, n)"
    using m n by (simp add: count_limit_def)
  then show ?case using \<open>cnt = n\<close> by (intro exI[of _ "[]"]) (simp add: click_requests_def)
next
  case (Cons t ts)
  show ?case
  proof (cases "cnt = n")
    case True
    then have "loop lib s a start cnt (t # ts) = Some ([] @ [Print (ReachedMaxClicks n)], None, n)"
      using m n by (simp add: count_limit_def)
    then show ?thesis using True by (intro exI[of _ "[]"]) (simp add: click_requests_def)
  next
    case False
    then have lt: "cnt < n" using Cons.prems(1) by simp
    then have k: "nat (n - cnt) = Suc (nat (n - (cnt + 1)))" by simp
    have cl: "count_limit a cnt = None" using m lt by (simp add: count_limit_def)
    have gt: "duration_limit a start (now t) = None"
      and "\<exists>ev st. get_game_state lib s (wall t) (state_answer t) = (ev, Inr st)"
      and sl: "sleep_raises t = None"
      and "\<exists>ev. click s (click_answer t) = (ev, Inr True)"
      using Cons.prems(3) k by simp_all
    then obtain ev1 st evc
      where g: "get_game_state lib s (wall t) (state_answer t) = (ev1, Inr st)"
        and c: "click s (click_answer t) = (evc, Inr True)" by blast
    obtain evi where a: "act lib s (click_interval a) cnt t = (evi, Inr (cnt + 1))"
      and ci: "click_requests s evi = 1"
      using act_good[OF g sl c] by blast
    have "\<exists>evs. loop lib s a start (cnt + 1) ts = Some (evs @ [Print (ReachedMaxClicks n)], None, n)
            \<and> click_requests s evs = nat (n - (cnt + 1))"
      using Cons.prems lt k by (intro Cons.IH) simp_all
    then obtain evs' where l': "loop lib s a start (cnt + 1) ts
          = Some (evs' @ [Print (ReachedMaxClicks n)], None, n)"
      and c': "click_requests s evs' = nat (n - (cnt + 1))" by blast
    have "loop lib s a start cnt (t # ts)
            = Some ((evi @ evs') @ [Print (ReachedMaxClicks n)], None, n)"
      using cl gt a l' by simp
    moreover have "click_requests s (evi @ evs') = nat (n - cnt)"
      using ci c' k by (simp add: click_requests_append)
    ultimately show ?thesis by blast
  qed
qed

text \<open>
  C7, as the code has it. Let the maximum \<open>n\<close> be positive and the click count at the
  start at most \<open>n\<close> (it is 0 for a bot just constructed). If the login is accepted and
  the first state fetched, and in each of the next \<open>n - click_count\<close> ticks the duration
  limit is not reached, the state is fetched, the wait is not interrupted and the click
  succeeds, then the run issues exactly \<open>n - click_count\<close> click actions, prints that
  the maximum is reached, reports and returns with a click count of \<open>n\<close>.
\<close>

theorem max_clicks_then_stop:
  "s = aenter (bot_email self) (bot_password self) (bot_base_url self)
   \<and> max_clicks a = Some n \<and> 0 < n \<and> click_count self \<le> n
   \<and> login s (login_page p) (login_landing p) = (evl, Inr True)
   \<and> get_game_state lib s (first_wall p) (first_state p) = (evg, Inr initial)
   \<and> nat (n - click_count self) \<le> length ticks
   \<and> (\<forall>t \<in> set (take (nat (n - click_count self)) ticks).
         duration_limit a (start_time p) (now t) = None
         \<and> (\<exists>ev st. get_game_state lib s (wall t) (state_answer t) = (ev, Inr st))
         \<and> sleep_raises t = None
         \<and> (\<exists>ev. click s (click_answer t) = (ev, Inr True)))
   \<longrightarrow> (\<exists>pre. run lib self a p ticks e
                 = Some (pre @ [Print (ReachedMaxClicks n),
                                Print (BotFinished n (e - start_time p)), Aclose],
                         None, self\<lparr>click_count := n\<rparr>)
              \<and> click_requests s
                    (pre @ [Print (ReachedMaxClicks n),
                            Print (BotFinished n (e - start_time p)), Aclose])
                  = nat (n - click_count self))"
proof (intro impI; elim conjE)
  assume s: "s = aenter (bot_email self) (bot_password self) (bot_base_url self)"
    and m: "max_clicks a = Some n" and n: "0 < n" and le: "click_count self \<le> n"
    and lg: "login s (login_page p) (login_landing p) = (evl, Inr True)"
    and g: "get_game_state lib s (first_wall p) (first_state p) = (evg, Inr initial)"
    and len: "nat (n - click_count self) \<le> length ticks"
    and good: "\<forall>t \<in> set (take (nat (n - click_count self)) ticks).
         duration_limit a (start_time p) (now t) = None
         \<and> (\<exists>ev st. get_game_state lib s (wall t) (state_answer t) = (ev, Inr st))
         \<and> sleep_raises t = None
         \<and> (\<exists>ev. click s (click_answer t) = (ev, Inr True))"
  have cl: "client s" by (simp add: s aenter_def)
  obtain evs where l: "loop lib s a (start_time p) (click_count self) ticks
        = Some (evs @ [Print (ReachedMaxClicks n)], None, n)"
    and c: "click_requests s evs = nat (n - click_count self)"
    using loop_until_max[OF m n le len good] by blast
  define pre where "pre = Print LoggingIn # evl @ [Print (LoginSuccessful (bot_email self))]
      @ evg @ state_report initial @ [starting a] @ evs"
  have "run lib self a p ticks e
          = Some (pre @ [Print (ReachedMaxClicks n),
                         Print (BotFinished n (e - start_time p)), Aclose],
                  None, self\<lparr>click_count := n\<rparr>)"
    using lg g l cl by (simp add: run_def s[symmetric] finish_shape aexit_def pre_def)
  moreover have "click_requests s
                    (pre @ [Print (ReachedMaxClicks n),
                            Print (BotFinished n (e - start_time p)), Aclose])
                  = nat (n - click_count self)"
    using c schedule_login[OF lg] schedule_get_game_state[OF g]
    by (simp add: pre_def click_requests_schedule schedule_append schedule_misc)
  ultimately show "\<exists>pre. run lib self a p ticks e
                 = Some (pre @ [Print (ReachedMaxClicks n),
                                Print (BotFinished n (e - start_time p)), Aclose],
                         None, self\<lparr>click_count := n\<rparr>)
              \<and> click_requests s
                    (pre @ [Print (ReachedMaxClicks n),
                            Print (BotFinished n (e - start_time p)), Aclose])
                  = nat (n - click_count self)"
    by blast
qed

theorem max_clicks_then_stop_witness:
  "click example_session (Inr game_page_ready)
     = ([HttpPost ''https://cgj.bpaul.fr/game/energy/action'' []], Inr True)
   \<and> (\<exists>pre. run example_stdlib example_bot
             \<lparr>click_interval = None, max_clicks = Some 2, duration = None\<rparr>
             accepted_prologue
             [ready_tick 101 (Inr game_page_ready), ready_tick 103 (Inr game_page_ready)] 105
           = Some (pre @ [Print (ReachedMaxClicks 2), Print (BotFinished 2 5), Aclose], None,
                   example_bot\<lparr>click_count := 2\<rparr>)
         \<and> click_requests example_session
               (pre @ [Print (ReachedMaxClicks 2), Print (BotFinished 2 5), Aclose]) = 2)"
proof -
  have good: "\<forall>t \<in> set (take (nat (2 - click_count example_bot))
                  [ready_tick 101 (Inr game_page_ready), ready_tick 103 (Inr game_page_ready)]).
         duration_limit \<lparr>click_interval = None, max_clicks = Some 2, duration = None\<rparr>
           (start_time accepted_prologue) (now t) = None
         \<and> (\<exists>ev st. get_game_state example_stdlib example_session (wall t) (state_answer t)
                       = (ev, Inr st))
         \<and> sleep_raises t = None
         \<and> (\<exists>ev. click example_session (click_answer t) = (ev, Inr True))"
    by (simp add: accepted_fields(4) eval_nat_numeral duration_limit_def ready_tick_fields
        state_ready click_ok)
  have "\<exists>pre. run example_stdlib example_bot
             \<lparr>click_interval = None, max_clicks = Some 2, duration = None\<rparr>
             accepted_prologue
             [ready_tick 101 (Inr game_page_ready), ready_tick 103 (Inr game_page_ready)] 105
           = Some (pre @ [Print (ReachedMaxClicks 2),
                          Print (BotFinished 2 (105 - start_time accepted_prologue)), Aclose],
                   None, example_bot\<lparr>click_count := 2\<rparr>)
         \<and> click_requests example_session
               (pre @ [Print (ReachedMaxClicks 2),
                       Print (BotFinished 2 (105 - start_time accepted_prologue)), Aclose])
             = nat (2 - click_count example_bot)"
    by (rule max_clicks_then_stop[rule_format, where s = example_session
          and lib = example_stdlib])
       (intro conjI, rule example_session_fields(3), simp, simp,
        simp add: accepted_fields(4), rule accepted_fields(1), rule accepted_fields(2),
        simp add: accepted_fields(4), rule good)
  then show ?thesis by (simp add: accepted_fields(3,4) click_ok)
qed

text \<open>
  C7 as stated fails when another stop condition comes first: with a maximum of 3 and a
  duration of 5 seconds, a run whose only click succeeds and whose second pass begins 6
  seconds after the start stops with one click.
\<close>

theorem duration_stops_before_max:
  "click example_session (Inr game_page_ready)
     = ([HttpPost ''https://cgj.bpaul.fr/game/energy/action'' []], Inr True)
   \<and> run example_stdlib example_bot
        \<lparr>click_interval = None, max_clicks = Some 3, duration = Some 5\<rparr>
        accepted_prologue
        [ready_tick 101 (Inr game_page_ready), ready_tick 106 (Inr game_page_ready),
         ready_tick 107 (Inr game_page_ready)] 106
      = Some ([Print LoggingIn,
               HttpGet ''https://cgj.bpaul.fr/security/login'',
               HttpPost ''https://cgj.bpaul.fr/security/login#''
                 [(''_username'', ''player@example.com''), (''_password'', ''secret''),
                  (''_remember_me'', ''on'')],
               Print (LoginSuccessful ''player@example.com''),
               HttpGet ''https://cgj.bpaul.fr/game/energy'',
               Print GameStateRetrieved, Print StartingDynamic,
               HttpGet ''https://cgj.bpaul.fr/game/energy'', Print (HumanizerDelay (8/5)),
               Print (ServerCooldown (8/5)), Sleep (8/5),
               HttpPost ''https://cgj.bpaul.fr/game/energy/action'' [],
               Print (ReachedDuration 5), Print (BotFinished 1 6), Aclose],
              None, example_bot\<lparr>click_count := 1\<rparr>)
   \<and> click_requests example_session
        [Print LoggingIn,
         HttpGet ''https://cgj.bpaul.fr/security/login'',
         HttpPost ''https://cgj.bpaul.fr/security/login#''
           [(''_username'', ''player@example.com''), (''_password'', ''secret''),
            (''_remember_me'', ''on'')],
         Print (LoginSuccessful ''player@example.com''),
         HttpGet ''https://cgj.bpaul.fr/game/energy'',
         Print GameStateRetrieved, Print StartingDynamic,
         HttpGet ''https://cgj.bpaul.fr/game/energy'', Print (HumanizerDelay (8/5)),
         Print (ServerCooldown (8/5)), Sleep (8/5),
         HttpPost ''https://cgj.bpaul.fr/game/energy/action'' [],
         Print (ReachedDuration 5), Print (BotFinished 1 6), Aclose] = 1"
  by (simp add: click_ok run_accepted loop_duration_first finish_shape starting_def
      click_requests_def example_session_fields(1) del: loop.simps)

section \<open>A failed click\<close>

text \<open>
  C8. Take a pass of the loop that reaches \<^verbatim>\<open>session.click()\<close> (no limit stops it,
  the state is fetched, the wait is not interrupted) and in which the click returns
  \<^verbatim>\<open>False\<close>. The events of that pass are the fetch, the jitter and cooldown messages,
  the one wait of the pass, the click and the message that it failed: nothing is slept
  after the click. The loop then is the loop on the remaining ticks with the same click
  count, so the next pass starts with its own stop conditions and its own wait.
\<close>

theorem failed_click_continues:
  "count_limit a cnt = None \<and> duration_limit a start (now t) = None
   \<and> get_game_state lib s (wall t) (state_answer t) = (evs1, Inr state)
   \<and> (0 < wait_time (click_interval a) state (humaniser (sample t))
        \<longrightarrow> sleep_raises t = None)
   \<and> click s (click_answer t) = (evc, Inr False)
   \<longrightarrow> (let j = humaniser (sample t);
            sw = server_wait state + j;
            w = wait_time (click_interval a) state j;
            evi = evs1 @ Print (HumanizerDelay j)
                    # (if 1 < sw then [Print (ServerCooldown sw)] else [])
                    @ (if 0 < w then [Sleep w] else [])
                    @ evc @ [Print ClickFailedRetrying]
        in loop lib s a start cnt (t # ts)
             = (case loop lib s a start cnt ts of
                  None \<Rightarrow> None
                | Some (evs', r, c) \<Rightarrow> Some (evi @ evs', r, c)))"
  by (cases "loop lib s a start cnt ts")
     (auto simp: act_def perform_click_def Let_def)

theorem failed_click_continues_witness:
  "click example_session (Inl RequestError)
     = ([HttpPost ''https://cgj.bpaul.fr/game/energy/action'' [],
         Print (ClickActionFailed RequestError)], Inr False)
   \<and> loop example_stdlib example_session
        \<lparr>click_interval = None, max_clicks = Some 1, duration = None\<rparr> 100 0
        [ready_tick 101 (Inl RequestError), ready_tick 103 (Inr game_page_ready)]
      = Some ([HttpGet ''https://cgj.bpaul.fr/game/energy'', Print (HumanizerDelay (8/5)),
               Print (ServerCooldown (8/5)), Sleep (8/5),
               HttpPost ''https://cgj.bpaul.fr/game/energy/action'' [],
               Print (ClickActionFailed RequestError), Print ClickFailedRetrying,
               HttpGet ''https://cgj.bpaul.fr/game/energy'', Print (HumanizerDelay (8/5)),
               Print (ServerCooldown (8/5)), Sleep (8/5),
               HttpPost ''https://cgj.bpaul.fr/game/energy/action'' [],
               Print (ReachedMaxClicks 1)],
              None, 1)"
proof -
  have rest: "loop example_stdlib example_session
        \<lparr>click_interval = None, max_clicks = Some 1, duration = None\<rparr> 100 0
        [ready_tick 103 (Inr game_page_ready)]
      = Some ([HttpGet ''https://cgj.bpaul.fr/game/energy'', Print (HumanizerDelay (8/5)),
               Print (ServerCooldown (8/5)), Sleep (8/5),
               HttpPost ''https://cgj.bpaul.fr/game/energy/action'' [],
               Print (ReachedMaxClicks 1)],
              None, 1)"
    by (simp add: count_limit_def duration_limit_def act_ready_ok)
  have hyp: "count_limit \<lparr>click_interval = None, max_clicks = Some 1, duration = None\<rparr> 0 = None
     \<and> duration_limit \<lparr>click_interval = None, max_clicks = Some 1, duration = None\<rparr> 100
         (now (ready_tick 101 (Inl RequestError))) = None
     \<and> get_game_state example_stdlib example_session (wall (ready_tick 101 (Inl RequestError)))
         (state_answer (ready_tick 101 (Inl RequestError)))
         = ([HttpGet ''https://cgj.bpaul.fr/game/energy''],
            Inr (Some \<lparr>timestamp = ''2025-01-01T12:00:00'', gs_status_code = 200,
                       gs_url = ''https://cgj.bpaul.fr/game/energy'',
                       next_click_in_seconds = None\<rparr>))
     \<and> (0 < wait_time
              (click_interval \<lparr>click_interval = None, max_clicks = Some 1, duration = None\<rparr>)
              (Some \<lparr>timestamp = ''2025-01-01T12:00:00'', gs_status_code = 200,
                       gs_url = ''https://cgj.bpaul.fr/game/energy'',
                       next_click_in_seconds = None\<rparr>)
              (humaniser (sample (ready_tick 101 (Inl RequestError))))
          \<longrightarrow> sleep_raises (ready_tick 101 (Inl RequestError)) = None)
     \<and> click example_session (click_answer (ready_tick 101 (Inl RequestError)))
         = ([HttpPost ''https://cgj.bpaul.fr/game/energy/action'' [],
             Print (ClickActionFailed RequestError)], Inr False)"
    by (simp add: count_limit_def duration_limit_def ready_tick_fields state_ready click_failed)
  show ?thesis
    using failed_click_continues[rule_format, OF hyp,
        of "[ready_tick 103 (Inr game_page_ready)]"]
    by (simp add: click_failed rest ready_tick_fields humaniser_at_zero wait_time_def
        floor_wait_def server_wait_def Let_def del: loop.simps)
qed

section \<open>The shape of the jitter\<close>

lemma exp_one_upper: "exp (1::real) \<le> 274 / 100"
proof -
  have "exp (1/64 :: real) \<le> 1 + 1/64 + (1/64)\<^sup>2"
    by (rule exp_bound) simp_all
  then have a: "exp (1/64 :: real) \<le> 4161/4096" by (simp add: power2_eq_square)
  have "exp (1::real) = exp (of_nat 64 * (1/64))" by simp
  also have "\<dots> = exp (1/64 :: real) ^ 64" by (rule exp_of_nat_mult)
  also have "\<dots> \<le> (4161/4096) ^ 64" using a by (intro power_mono) simp_all
  also have "\<dots> \<le> (274/100 :: real)" by (simp add: power_divide)
  finally show ?thesis .
qed

lemma exp_one_lower: "(269/100 :: real) \<le> exp 1"
proof -
  have a: "(65/64::real) \<le> exp (1/64)" using exp_ge_add_one_self[of "1/64::real"] by simp
  have "(269/100::real) \<le> (65/64)^64" by (simp add: power_divide)
  also have "\<dots> \<le> exp (1/64 :: real) ^ 64" using a by (intro power_mono) simp_all
  also have "\<dots> = exp (of_nat 64 * (1/64 :: real))" by (rule exp_of_nat_mult[symmetric])
  finally show ?thesis by simp
qed

lemma exp_nat_lower: "(269/100 :: real) ^ n \<le> exp (of_nat n)"
proof -
  have "exp (of_nat n :: real) = exp (of_nat n * 1)" by simp
  also have "\<dots> = exp (1::real) ^ n" by (rule exp_of_nat_mult)
  finally show ?thesis using exp_one_lower by (simp add: power_mono)
qed

lemma exp_nat_upper: "exp (of_nat n :: real) \<le> (274/100) ^ n"
proof -
  have "exp (of_nat n :: real) = exp (of_nat n * 1)" by simp
  also have "\<dots> = exp (1::real) ^ n" by (rule exp_of_nat_mult)
  finally show ?thesis using exp_one_upper by (simp add: power_mono)
qed

lemma humaniser_alt: "humaniser x = 4/5 * (exp (x * (ln (29/10) - 1)) + exp (- x))"
  by (simp add: humaniser_def powr_def exp_diff exp_minus field_simps)

lemma humaniser_pos: "0 < humaniser x"
  by (simp add: humaniser_alt add_pos_pos)

lemma ln29_upper: "ln (29/10 :: real) - 1 \<le> 79/1000"
proof -
  have "ln (29/10 / exp 1 :: real) \<le> 29/10 / exp 1 - 1"
    by (rule ln_le_minus_one) simp
  moreover have "ln (29/10 / exp 1 :: real) = ln (29/10) - 1"
    by (subst ln_div) simp_all
  moreover have "(29/10 :: real) / exp 1 \<le> 29/10 / (269/100)"
    using exp_one_lower by (intro divide_left_mono) simp_all
  ultimately show ?thesis by simp
qed

lemma ln29_lower: "(11/200 :: real) \<le> ln (29/10) - 1"
proof -
  have "ln (exp 1 / (29/10) :: real) \<le> exp 1 / (29/10) - 1"
    by (rule ln_le_minus_one) simp
  moreover have "ln (exp 1 / (29/10) :: real) = 1 - ln (29/10)"
    by (subst ln_div) simp_all
  moreover have "exp (1::real) / (29/10) \<le> (274/100) / (29/10)"
    using exp_one_upper by (intro divide_right_mono) simp_all
  ultimately show ?thesis by simp
qed

lemma humaniser_113_lower: "400 \<le> humaniser 113"
proof -
  have e: "exp (113::real) \<le> (274/100) ^ 113" using exp_nat_upper[of 113] by simp
  have "500 * (274/100 :: real) ^ 113 \<le> (29/10) ^ 113" by (simp add: power_divide)
  then have "500 * exp (113::real) \<le> (29/10) ^ 113 + 1" using e by linarith
  then show ?thesis
    by (simp add: humaniser_def field_simps)
qed

lemma humaniser_deriv:
  "(humaniser has_real_derivative
      4/5 * ((ln (29/10) - 1) * exp (x * (ln (29/10) - 1)) - exp (- x))) (at x)"
proof -
  have "((\<lambda>x. 4/5 * (exp (x * (ln (29/10) - 1)) + exp (- x))) has_real_derivative
      4/5 * ((ln (29/10) - 1) * exp (x * (ln (29/10) - 1)) - exp (- x))) (at x)"
    by (auto intro!: derivative_eq_intros)
  moreover have "humaniser = (\<lambda>x. 4/5 * (exp (x * (ln (29/10) - 1)) + exp (- x)))"
    by (rule ext) (rule humaniser_alt)
  ultimately show ?thesis by simp
qed

lemma humaniser_slope_early:
  fixes x :: real
  assumes "0 \<le> x" "x \<le> 2"
  shows "4/5 * ((ln (29/10) - 1) * exp (x * (ln (29/10) - 1)) - exp (- x)) \<le> 0"
proof -
  define c :: real where "c = ln (29/10) - 1"
  define P :: real where "P = c * exp (x * c)"
  define Q :: real where "Q = exp (- x)"
  have c0: "0 < c" using ln29_lower by (simp add: c_def)
  have c1: "c \<le> 79/1000" using ln29_upper by (simp add: c_def)
  have "x * c \<le> 2 * (79/1000)" using assms c0 c1 by (intro mult_mono) simp_all
  then have f1: "exp (x * c) \<le> exp (158/1000 :: real)" by simp
  have f2: "exp (158/1000 :: real) \<le> 1 + 158/1000 + (158/1000)\<^sup>2"
    by (rule exp_bound) simp_all
  have f3: "(1 + 158/1000 + (158/1000)\<^sup>2 :: real) \<le> 6/5" by (simp add: power2_eq_square)
  have e1: "exp (x * c) \<le> 6/5" by (rule order_trans[OF order_trans[OF f1 f2] f3])
  have "c * exp (x * c) \<le> (79/1000) * (6/5)"
    using c0 c1 e1 by (intro mult_mono) simp_all
  then have "P \<le> (79/1000) * (6/5)" by (simp only: P_def)
  then have up: "P \<le> 1/10" by simp
  have "exp x \<le> exp (of_nat 2 :: real)" using assms by simp
  also have "\<dots> \<le> (274/100) ^ 2" by (rule exp_nat_upper)
  also have "\<dots> \<le> (10::real)" by (simp add: power2_eq_square)
  finally have "exp x \<le> 10" .
  then have "inverse 10 \<le> inverse (exp x)" by (intro le_imp_inverse_le) simp_all
  then have lo: "1/10 \<le> Q" by (simp add: Q_def exp_minus)
  have "P - Q \<le> 0" using up lo by linarith
  then have "4/5 * (P - Q) \<le> 0" by (intro mult_nonneg_nonpos) simp_all
  then show ?thesis unfolding P_def Q_def c_def .
qed

lemma humaniser_slope_late:
  fixes x :: real
  assumes "3 \<le> x"
  shows "0 \<le> 4/5 * ((ln (29/10) - 1) * exp (x * (ln (29/10) - 1)) - exp (- x))"
proof -
  define c :: real where "c = ln (29/10) - 1"
  define P :: real where "P = c * exp (x * c)"
  define Q :: real where "Q = exp (- x)"
  have c0: "11/200 \<le> c" using ln29_lower by (simp add: c_def)
  have "0 \<le> x * c" using assms c0 by simp
  then have "1 \<le> exp (x * c)" by simp
  then have "c * 1 \<le> c * exp (x * c)" using c0 by (intro mult_left_mono) simp_all
  then have "c \<le> P" by (simp only: P_def mult_1_right)
  then have lo: "11/200 \<le> P" using c0 by linarith
  have "(19::real) \<le> (269/100) ^ 3" by (simp add: power3_eq_cube)
  also have "\<dots> \<le> exp (of_nat 3 :: real)" by (rule exp_nat_lower)
  also have "\<dots> \<le> exp x" using assms by simp
  finally have "19 \<le> exp x" .
  then have "inverse (exp x) \<le> inverse 19" by (intro le_imp_inverse_le) simp_all
  then have up: "Q \<le> 1/19" by (simp add: Q_def exp_minus)
  have "0 \<le> P - Q" using up lo by linarith
  then have "0 \<le> 4/5 * (P - Q)" by simp
  then show ?thesis unfolding P_def Q_def c_def .
qed

lemma humaniser_decreasing_early:
  assumes "0 \<le> x" "x \<le> y" "y \<le> 2"
  shows "humaniser y \<le> humaniser x"
proof (rule DERIV_nonpos_imp_nonincreasing[OF assms(2)])
  fix z assume "x \<le> z" "z \<le> y"
  then have "0 \<le> z" "z \<le> 2" using assms by simp_all
  then show "\<exists>d. (humaniser has_real_derivative d) (at z) \<and> d \<le> 0"
    using humaniser_deriv[of z] humaniser_slope_early[of z] by blast
qed

lemma humaniser_increasing_late:
  assumes "3 \<le> x" "x \<le> y"
  shows "humaniser x \<le> humaniser y"
proof (rule DERIV_nonneg_imp_nondecreasing[OF assms(2)])
  fix z assume "x \<le> z" "z \<le> y"
  then have "3 \<le> z" using assms by simp
  then show "\<exists>d. (humaniser has_real_derivative d) (at z) \<and> 0 \<le> d"
    using humaniser_deriv[of z] humaniser_slope_late[of z] by blast
qed

lemma humaniser_le_end:
  assumes "0 \<le> x" "x \<le> y"
  shows "humaniser x \<le> humaniser y + 4/5"
proof -
  define c :: real where "c = ln (29/10) - 1"
  define A :: real where "A = exp (y * c)"
  define B :: real where "B = exp (- y)"
  define P :: real where "P = exp (x * c)"
  define Q :: real where "Q = exp (- x)"
  have c0: "0 < c" using ln29_lower by (simp add: c_def)
  have "x * c \<le> y * c" using assms c0 by (intro mult_right_mono) simp_all
  then have a: "P \<le> A" by (simp add: A_def P_def)
  have b: "Q \<le> 1" using assms by (simp add: Q_def)
  have B0: "0 < B" by (simp add: B_def)
  have hx: "humaniser x = 4/5 * (P + Q)"
    unfolding c_def P_def Q_def by (rule humaniser_alt)
  have hy: "humaniser y = 4/5 * (A + B)"
    unfolding A_def B_def c_def by (rule humaniser_alt)
  have "P + Q \<le> A + B + 1" using a b B0 by linarith
  then have "4/5 * (P + Q) \<le> 4/5 * (A + B + 1)" by (intro mult_left_mono) simp_all
  then have "4/5 * (P + Q) \<le> 4/5 * (A + B) + 4/5" by (simp only: distrib_left mult_1_right)
  then show ?thesis unfolding hx hy .
qed

lemma humaniser_57_upper: "humaniser 57 \<le> 59"
proof -
  have e: "(269/100 :: real) ^ 57 \<le> exp 57" using exp_nat_lower[of 57] by simp
  then have e': "(269/100 :: real) ^ 57 * (3/2) \<le> exp 57 * (3/2)" by simp
  have "humaniser 57 = 6/5 * ((29/10) ^ 57 + 1) / (exp 57 * (3/2))"
    by (simp add: humaniser_def)
  also have "\<dots> \<le> 6/5 * ((29/10) ^ 57 + 1) / ((269/100) ^ 57 * (3/2))"
    using e' by (rule divide_left_mono) simp_all
  also have "\<dots> \<le> 59" by (simp add: power_divide)
  finally show ?thesis .
qed

lemma humaniser_113_upper: "humaniser 113 \<le> 3999"
proof -
  have e: "(269/100 :: real) ^ 113 \<le> exp 113" using exp_nat_lower[of 113] by simp
  then have e': "(269/100 :: real) ^ 113 * (3/2) \<le> exp 113 * (3/2)" by simp
  have "humaniser 113 = 6/5 * ((29/10) ^ 113 + 1) / (exp 113 * (3/2))"
    by (simp add: humaniser_def)
  also have "\<dots> \<le> 6/5 * ((29/10) ^ 113 + 1) / ((269/100) ^ 113 * (3/2))"
    using e' by (rule divide_left_mono) simp_all
  also have "\<dots> \<le> 3999" by (simp add: power_divide)
  finally show ?thesis .
qed

text \<open>
  C9, as the code has it. For every draw \<open>x\<close> from 0 to 113 the jitter is positive and
  at most 4000. It is skewed toward small values: on the lower half of the range, the
  draws up to 57, it is at most 60. The formula decreases as \<open>x\<close> grows from 0 to 2, and
  it increases as \<open>x\<close> grows from 3 to 113.
\<close>

theorem humaniser_shape:
  "(0 \<le> x \<and> x \<le> 113 \<longrightarrow> 0 < humaniser x \<and> humaniser x \<le> 4000)
   \<and> (0 \<le> x \<and> x \<le> 57 \<longrightarrow> humaniser x \<le> 60)
   \<and> (0 \<le> x \<and> x \<le> y \<and> y \<le> 2 \<longrightarrow> humaniser y \<le> humaniser x)
   \<and> (3 \<le> x \<and> x \<le> y \<and> y \<le> 113 \<longrightarrow> humaniser x \<le> humaniser y)"
  using humaniser_pos[of x] humaniser_le_end[of x 113] humaniser_113_upper
    humaniser_le_end[of x 57] humaniser_57_upper
    humaniser_decreasing_early[of x y] humaniser_increasing_late[of x y]
  by auto

theorem humaniser_shape_witness:
  "0 < humaniser 1 \<and> humaniser 1 \<le> 60 \<and> humaniser 2 \<le> humaniser 1
   \<and> 0 < humaniser 3 \<and> humaniser 3 \<le> 60 \<and> humaniser 3 \<le> humaniser 113
   \<and> humaniser 113 \<le> 4000"
  using humaniser_shape[of 1 2] humaniser_shape[of 3 113] humaniser_shape[of 113 113]
  by simp

text \<open>
  C9 as stated fails: the formula is not decreasing over the range of the draw. Both 0
  and 113 lie in it, and the jitter at 113 is larger than the jitter at 0 (which is 1.6).
\<close>

theorem humaniser_not_decreasing:
  "(0::real) \<in> {0..113} \<and> (113::real) \<in> {0..113} \<and> (0::real) \<le> 113
   \<and> humaniser 0 < humaniser 113"
  using humaniser_113_lower by (simp add: humaniser_at_zero)

end
